theory Spec2Isabelle
  imports Main "HOL-Library.Sublist" "HOL-Library.Word"
begin

section \<open>Python values used by the scraper\<close>

subsection \<open>Strings\<close>

text \<open>
  A Python \<^verbatim>\<open>str\<close> is a sequence of Unicode code points.  The scraper works on Chinese
  text, so a string is a list of code points here; \<open>ascii\<close> writes an ASCII literal.
  The character classes are those of the Unicode database of version 14.
\<close>

type_synonym ustring = "nat list"

definition ascii :: "string \<Rightarrow> ustring" where
  "ascii s = map of_char s"

text \<open>
  A \<^verbatim>\<open>str\<close> can hold a lone surrogate, a code point from U+D800 to U+DFFF, which the
  UTF-8 codec refuses to encode; a plain string has none.
\<close>

definition surrogate :: "nat \<Rightarrow> bool" where
  "surrogate c \<longleftrightarrow> 0xD800 \<le> c \<and> c \<le> 0xDFFF"

definition plain :: "ustring \<Rightarrow> bool" where
  "plain s \<longleftrightarrow> \<not> list_ex surrogate s"

text \<open>\<^verbatim>\<open>str.isspace\<close> on one character: what \<^verbatim>\<open>str.strip()\<close> removes.\<close>

definition isspace :: "nat \<Rightarrow> bool" where
  "isspace c \<longleftrightarrow>
     (9 \<le> c \<and> c \<le> 13) \<or> (28 \<le> c \<and> c \<le> 32) \<or> c = 0x85 \<or> c = 0xA0 \<or> c = 0x1680 \<or>
     (0x2000 \<le> c \<and> c \<le> 0x200A) \<or> c = 0x2028 \<or> c = 0x2029 \<or> c = 0x202F \<or>
     c = 0x205F \<or> c = 0x3000"

definition py_strip :: "ustring \<Rightarrow> ustring" where
  "py_strip s = rev (dropWhile isspace (rev (dropWhile isspace s)))"

text \<open>\<^verbatim>\<open>s.lstrip(chars)\<close>: every leading character that occurs in \<open>chars\<close> goes.\<close>

definition py_lstrip :: "ustring \<Rightarrow> ustring \<Rightarrow> ustring" where
  "py_lstrip chars s = dropWhile (\<lambda>c. c \<in> set chars) s"

text \<open>\<^verbatim>\<open>sub in s\<close>.\<close>

fun py_contains :: "ustring \<Rightarrow> ustring \<Rightarrow> bool" where
  "py_contains sub [] = (sub = [])"
| "py_contains sub (c # cs) = (prefix sub (c # cs) \<or> py_contains sub cs)"

text \<open>
  \<^verbatim>\<open>s.split(sep)\<close>, from left to right, empty pieces kept.  Python raises on an empty
  separator; every separator in the scraper is a non-empty literal.
\<close>

function split_from :: "ustring \<Rightarrow> ustring \<Rightarrow> ustring \<Rightarrow> ustring list" where
  "split_from sep acc [] = [acc]"
| "split_from sep acc (c # cs) =
     (if sep \<noteq> [] \<and> prefix sep (c # cs)
      then acc # split_from sep [] (drop (length sep) (c # cs))
      else split_from sep (acc @ [c]) cs)"
  by pat_completeness auto
termination
  by (relation "measure (\<lambda>(sep, acc, s). length s)") auto

definition py_split :: "ustring \<Rightarrow> ustring \<Rightarrow> ustring list" where
  "py_split sep s = split_from sep [] s"

text \<open>\<^verbatim>\<open>sep.join(xs)\<close>.\<close>

fun py_join :: "ustring \<Rightarrow> ustring list \<Rightarrow> ustring" where
  "py_join sep [] = []"
| "py_join sep [x] = x"
| "py_join sep (x # y # ys) = x @ sep @ py_join sep (y # ys)"

text \<open>\<^verbatim>\<open>s.replace(old, new)\<close> for a non-empty \<open>old\<close>: the occurrences found by \<open>split\<close>.\<close>

definition py_replace :: "ustring \<Rightarrow> ustring \<Rightarrow> ustring \<Rightarrow> ustring" where
  "py_replace old new s = py_join new (py_split old s)"

text \<open>The comprehension \<^verbatim>\<open>[x.strip() for x in xs if x.strip()]\<close>.\<close>

definition stripped_nonempty :: "ustring list \<Rightarrow> ustring list" where
  "stripped_nonempty xs = map py_strip (filter (\<lambda>x. py_strip x \<noteq> []) xs)"

subsection \<open>Digits and \<^verbatim>\<open>int()\<close>\<close>

text \<open>
  The decimal digits of the Unicode database (category Nd) come in runs of ten; the
  list holds the zero of each run.  \<^verbatim>\<open>str.isdigit\<close> holds for these and for the
  further digit characters (superscripts, circled digits, ...), which \<^verbatim>\<open>int()\<close> does
  not read.
\<close>

definition decimal_zeros :: "nat list" where
  "decimal_zeros =
    [0x30, 0x660, 0x6F0, 0x7C0, 0x966, 0x9E6, 0xA66, 0xAE6, 0xB66, 0xBE6, 0xC66, 0xCE6,
     0xD66, 0xDE6, 0xE50, 0xED0, 0xF20, 0x1040, 0x1090, 0x17E0, 0x1810, 0x1946, 0x19D0,
     0x1A80, 0x1A90, 0x1B50, 0x1BB0, 0x1C40, 0x1C50, 0xA620, 0xA8D0, 0xA900, 0xA9D0,
     0xA9F0, 0xAA50, 0xABF0, 0xFF10, 0x104A0, 0x10D30, 0x11066, 0x110F0, 0x11136,
     0x111D0, 0x112F0, 0x11450, 0x114D0, 0x11650, 0x116C0, 0x11730, 0x118E0, 0x11950,
     0x11C50, 0x11D50, 0x11DA0, 0x16A60, 0x16AC0, 0x16B50, 0x1D7CE, 0x1D7D8, 0x1D7E2,
     0x1D7EC, 0x1D7F6, 0x1E140, 0x1E2F0, 0x1E950, 0x1FBF0]"

definition other_digits :: "(nat \<times> nat) list" where
  "other_digits =
    [(0xB2, 0xB3), (0xB9, 0xB9), (0x1369, 0x1371), (0x19DA, 0x19DA), (0x2070, 0x2070),
     (0x2074, 0x2079), (0x2080, 0x2089), (0x2460, 0x2468), (0x2474, 0x247C),
     (0x2488, 0x2490), (0x24EA, 0x24EA), (0x24F5, 0x24FD), (0x24FF, 0x24FF),
     (0x2776, 0x277E), (0x2780, 0x2788), (0x278A, 0x2792), (0x10A40, 0x10A43),
     (0x10E60, 0x10E68), (0x11052, 0x1105A), (0x1F100, 0x1F10A)]"

text \<open>The value of a decimal digit, \<open>None\<close> for any other character.\<close>

definition decimal :: "nat \<Rightarrow> nat option" where
  "decimal c =
     (case List.find (\<lambda>z. z \<le> c \<and> c < z + 10) decimal_zeros of
        None \<Rightarrow> None
      | Some z \<Rightarrow> Some (c - z))"

text \<open>\<^verbatim>\<open>str.isdecimal\<close> and \<^verbatim>\<open>str.isdigit\<close> on one character.\<close>

definition is_decimal :: "nat \<Rightarrow> bool" where
  "is_decimal c = (decimal c \<noteq> None)"

definition isdigit :: "nat \<Rightarrow> bool" where
  "isdigit c \<longleftrightarrow>
     is_decimal c \<or> list_ex (\<lambda>(lo, hi). lo \<le> c \<and> c \<le> hi) other_digits"

datatype error =
    ValueError string
  | TypeError
  | HTTPError nat
  | RequestException
  | JSONDecodeError
  | FileNotFoundError
  | FileExistsError
  | NotADirectoryError
  | IsADirectoryError
  | UnicodeEncodeError
  | UnicodeDecodeError
  | OverflowError
  | OSError
  | OffType

text \<open>
  \<open>OSError\<close> stands for an error of the operating system that has no class of its own
  above.  \<open>OffType\<close> is no Python exception: it marks a cached value whose JSON type is
  not the type its \<open>Movie\<close> field is declared with, an object the record type below has
  no value for.
\<close>

definition invalid_literal :: error where
  "invalid_literal = ValueError ''invalid literal for int() with base 10''"

definition exceeds_limit :: error where
  "exceeds_limit = ValueError ''Exceeds the limit (4300 digits) for integer string conversion''"

definition int_max_str_digits :: nat where
  "int_max_str_digits = 4300"

text \<open>
  The digits of an integer literal: it starts with a digit, and single underscores may
  stand between digits.
\<close>

fun int_digits :: "ustring \<Rightarrow> nat list option" where
  "int_digits [] = None"
| "int_digits [c] = map_option (\<lambda>d. [d]) (decimal c)"
| "int_digits (c # u # cs) =
     (case decimal c of
        None \<Rightarrow> None
      | Some d \<Rightarrow> map_option ((#) d) (int_digits (if u = 95 then cs else u # cs)))"

definition horner :: "nat list \<Rightarrow> nat" where
  "horner ds = foldl (\<lambda>acc d. 10 * acc + d) 0 ds"

text \<open>
  \<^verbatim>\<open>int(s)\<close> on a string, base 10: surrounding whitespace is dropped, one sign is read,
  then the run of digits and underscores, which must be a literal of at most
  \<open>int_max_str_digits\<close> digits (the interpreter's default limit) and must end the string.
  The whitespace \<^verbatim>\<open>int()\<close> drops is that of \<^verbatim>\<open>str.strip()\<close> but for the four separators
  U+001C to U+001F, which it takes for characters of the literal.
\<close>

definition int_space :: "nat \<Rightarrow> bool" where
  "int_space c \<longleftrightarrow> isspace c \<and> \<not> (28 \<le> c \<and> c \<le> 31)"

definition py_int :: "ustring \<Rightarrow> error + int" where
  "py_int s =
     (let t = rev (dropWhile int_space (rev (dropWhile int_space s)));
          neg = (t \<noteq> [] \<and> hd t = 45);
          body = (if t \<noteq> [] \<and> (hd t = 43 \<or> hd t = 45) then tl t else t);
          run = takeWhile (\<lambda>c. is_decimal c \<or> c = 95) body;
          rest = dropWhile (\<lambda>c. is_decimal c \<or> c = 95) body
      in case int_digits run of
           None \<Rightarrow> Inl invalid_literal
         | Some ds \<Rightarrow>
             if int_max_str_digits < length ds then Inl exceeds_limit
             else if rest \<noteq> [] then Inl invalid_literal
             else Inr ((if neg then - 1 else 1) * int (horner ds)))"

subsection \<open>The helpers of the scraper module\<close>

definition safe_int :: "ustring option \<Rightarrow> int option" where
  "safe_int value =
     (case value of
        None \<Rightarrow> None
      | Some v \<Rightarrow> (case py_int v of Inl e \<Rightarrow> None | Inr n \<Rightarrow> Some n))"

definition extract_vote_count :: "ustring \<Rightarrow> error + int" where
  "extract_vote_count value =
     (let digits = filter isdigit value
      in if digits \<noteq> [] then py_int digits else Inr 0)"

section \<open>Markup\<close>

text \<open>
  What the HTML parser hands to the scraper: a tree of text nodes and elements.  An
  element has its tag name, the tokens of its \<^verbatim>\<open>class\<close> attribute, its other attributes
  and its children.  Comments and the like, which the searches and \<^verbatim>\<open>get_text\<close> pass
  over, are left out of the tree.  A search looks below the node it is called on, never
  at the node itself.
\<close>

datatype node =
    Text ustring
  | Elem ustring "ustring list" "(ustring \<times> ustring) list" "node list"

fun descendants :: "node \<Rightarrow> node list" where
  "descendants (Text s) = []"
| "descendants (Elem name cls atts kids) = concat (map (\<lambda>k. k # descendants k) kids)"

fun is_tag :: "ustring \<Rightarrow> node \<Rightarrow> bool" where
  "is_tag name (Text s) = False"
| "is_tag name (Elem name' cls atts kids) = (name' = name)"

fun has_class :: "ustring \<Rightarrow> node \<Rightarrow> bool" where
  "has_class c (Text s) = False"
| "has_class c (Elem name cls atts kids) = (c \<in> set cls)"

text \<open>\<^verbatim>\<open>tag.has_attr(a)\<close> and \<^verbatim>\<open>tag[a]\<close> in one: the value of the attribute, if it is there.\<close>

fun attr :: "ustring \<Rightarrow> node \<Rightarrow> ustring option" where
  "attr a (Text s) = None"
| "attr a (Elem name cls atts kids) = map_of atts a"

text \<open>\<^verbatim>\<open>find_all(name)\<close>, \<^verbatim>\<open>find_all(name, class_=c)\<close>, \<^verbatim>\<open>find(name)\<close>, \<^verbatim>\<open>find(name, class_=c)\<close>:
  the matching elements below the node in document order, and the first of them.\<close>

definition find_all :: "ustring \<Rightarrow> node \<Rightarrow> node list" where
  "find_all name n = filter (is_tag name) (descendants n)"

definition find_all_class :: "ustring \<Rightarrow> ustring \<Rightarrow> node \<Rightarrow> node list" where
  "find_all_class name c n = filter (\<lambda>x. is_tag name x \<and> has_class c x) (descendants n)"

definition find_tag :: "ustring \<Rightarrow> node \<Rightarrow> node option" where
  "find_tag name n = (case find_all name n of [] \<Rightarrow> None | x # xs \<Rightarrow> Some x)"

definition find_class :: "ustring \<Rightarrow> ustring \<Rightarrow> node \<Rightarrow> node option" where
  "find_class name c n = (case find_all_class name c n of [] \<Rightarrow> None | x # xs \<Rightarrow> Some x)"

fun strings :: "node \<Rightarrow> ustring list" where
  "strings (Text s) = [s]"
| "strings (Elem name cls atts kids) = concat (map strings kids)"

text \<open>With \<^verbatim>\<open>strip=True\<close> every string is stripped and the empty ones are left out.\<close>

definition stripped_strings :: "node \<Rightarrow> ustring list" where
  "stripped_strings n = filter (\<lambda>s. s \<noteq> []) (map py_strip (strings n))"

definition get_text :: "node \<Rightarrow> ustring" where
  "get_text n = concat (stripped_strings n)"

definition get_text_sep :: "ustring \<Rightarrow> node \<Rightarrow> ustring" where
  "get_text_sep sep n = py_join sep (stripped_strings n)"

section \<open>The record type\<close>

text \<open>
  A Python float is kept as its 64-bit pattern; \<open>0\<close> is \<^verbatim>\<open>0.0\<close>.  The highest bit is
  the sign and the rest the magnitude; the magnitudes above that of infinity are the
  NaNs.
\<close>

type_synonym pyfloat = "64 word"

definition float_sign :: "pyfloat \<Rightarrow> bool" where
  "float_sign f \<longleftrightarrow> 0x8000000000000000 \<le> f"

definition float_magnitude :: "pyfloat \<Rightarrow> pyfloat" where
  "float_magnitude f = (if float_sign f then f - 0x8000000000000000 else f)"

definition float_is_nan :: "pyfloat \<Rightarrow> bool" where
  "float_is_nan f \<longleftrightarrow> 0x7FF0000000000000 < float_magnitude f"

record movie =
  rank :: int
  title :: ustring
  original_title :: "ustring option"
  year :: "int option"
  country :: "ustring option"
  genres :: "ustring list"
  rating :: pyfloat
  votes :: int
  quote :: "ustring option"
  detail_url :: ustring
  poster_url :: "ustring option"
  is_playable :: bool
  directors :: "ustring list"
  actors :: "ustring list"

section \<open>The field extractor\<close>

text \<open>The string literals of \<^verbatim>\<open>_parse_movie\<close> that are not ASCII.\<close>

definition director_marker :: ustring where
  "director_marker = [0x5BFC, 0x6F14, 0x3A]"

definition starring_marker :: ustring where
  "starring_marker = [0x4E3B, 0x6F14, 0x3A]"

definition people_rated :: ustring where
  "people_rated = [0x4EBA, 0x8BC4, 0x4EF7]"

definition rated :: ustring where
  "rated = [0x8BC4, 0x4EF7]"

text \<open>
  \<^verbatim>\<open>_parse_movie\<close> is one long function; each definition below is one of its commented
  blocks, and \<open>parse_movie\<close> puts them together in the order of the source.  Only
  the rank and the votes can raise.  Where the source takes element 0 of a split, the
  model takes \<open>hd\<close>: a split has at least one piece.
\<close>

definition parse_rank :: "node \<Rightarrow> error + int" where
  "parse_rank li =
     (case find_tag (ascii ''em'') li of
        None \<Rightarrow> Inr 0
      | Some rank_tag \<Rightarrow> py_int (get_text rank_tag))"

definition parse_titles :: "node \<Rightarrow> ustring \<times> ustring option" where
  "parse_titles li =
     (let title_tags = find_all_class (ascii ''span'') (ascii ''title'') li;
          first_title = (case title_tags of [] \<Rightarrow> [] | t # ts \<Rightarrow> get_text t);
          second =
            (case title_tags of
               t # t2 # ts \<Rightarrow>
                 (let second_title = py_strip (py_lstrip (ascii ''/'') (get_text t2))
                  in if second_title \<noteq> [] then Some second_title else None)
             | _ \<Rightarrow> None);
          fallback =
            (case find_class (ascii ''span'') (ascii ''other'') li of
               None \<Rightarrow> second
             | Some other_title_tag \<Rightarrow>
                 if second \<noteq> None \<and> second \<noteq> Some [] then second
                 else
                   (let other_text = py_strip (py_lstrip (ascii ''/'') (get_text other_title_tag))
                    in if other_text \<noteq> []
                       then Some (if py_contains (ascii ''/'') other_text
                                  then py_strip (hd (py_split (ascii ''/'') other_text))
                                  else other_text)
                       else second))
      in (first_title, fallback))"

definition parse_detail_url :: "node \<Rightarrow> ustring" where
  "parse_detail_url li =
     (case find_tag (ascii ''a'') li of
        None \<Rightarrow> []
      | Some detail_link \<Rightarrow>
          (case attr (ascii ''href'') detail_link of None \<Rightarrow> [] | Some href \<Rightarrow> href))"

definition parse_poster_url :: "node \<Rightarrow> ustring option" where
  "parse_poster_url li =
     (case find_tag (ascii ''img'') li of
        None \<Rightarrow> None
      | Some img_tag \<Rightarrow> attr (ascii ''src'') img_tag)"

definition parse_is_playable :: "node \<Rightarrow> bool" where
  "parse_is_playable li = (find_class (ascii ''span'') (ascii ''playable'') li \<noteq> None)"

text \<open>
  Directors and actors.  Nothing in this block raises, so its \<^verbatim>\<open>try\<close> has no branch
  here.  \<open>director_parts[1]\<close> and \<open>actors_parts[1]\<close> are read under \<^verbatim>\<open>len(...) > 1\<close>.
\<close>

definition parse_credits :: "node \<Rightarrow> ustring list \<times> ustring list" where
  "parse_credits li =
     (case find_tag (ascii ''p'') li of
        None \<Rightarrow> ([], [])
      | Some info_block \<Rightarrow>
          (let info_text = get_text info_block;
               director_list =
                 (if py_contains director_marker info_text
                  then
                    (let director_part =
                           (if py_contains starring_marker info_text
                            then hd (py_split starring_marker info_text)
                            else info_text)
                     in if py_contains director_marker director_part
                        then
                          (case py_split director_marker director_part of
                             p0 # p1 # ps \<Rightarrow>
                               take 3 (stripped_nonempty (py_split (ascii ''/'') (py_strip p1)))
                           | _ \<Rightarrow> [])
                        else [])
                  else []);
               actor_list =
                 (if py_contains starring_marker info_text
                  then
                    (case py_split starring_marker info_text of
                       p0 # actors_part # ps \<Rightarrow>
                         (let actors_text =
                                (if py_contains (ascii ''<br'') actors_part
                                 then hd (py_split (ascii ''<br'') actors_part)
                                 else actors_part)
                          in take 5 (stripped_nonempty (py_split (ascii ''/'') actors_text)))
                     | _ \<Rightarrow> [])
                  else [])
           in (director_list, actor_list)))"

text \<open>Year, country and genres, from the last non-empty line of the info block.\<close>

definition metadata_parts :: "ustring \<Rightarrow> ustring list" where
  "metadata_parts metadata_line =
     stripped_nonempty
       (py_split (ascii ''/'')
          (py_replace (ascii ''&nbsp;'') (ascii '' '')
             (py_replace [0xA0] (ascii '' '') metadata_line)))"

definition info_lines :: "node \<Rightarrow> ustring list" where
  "info_lines info_block =
     stripped_nonempty (py_split [10] (get_text_sep [10] info_block))"

definition parse_metadata :: "node \<Rightarrow> int option \<times> ustring option \<times> ustring list" where
  "parse_metadata li =
     (case find_tag (ascii ''p'') li of
        None \<Rightarrow> (None, None, [])
      | Some info_block \<Rightarrow>
          (let lines = info_lines info_block
           in if lines = [] then (None, None, [])
              else
                (let parts = metadata_parts (last lines)
                 in if parts = [] then (None, None, [])
                    else (safe_int (Some (hd parts)),
                          if 1 < length parts then Some (parts ! 1) else None,
                          if 2 < length parts then drop 2 parts else []))))"

text \<open>\<^verbatim>\<open>float(text)\<close> is not modelled: the reader is a parameter, \<open>None\<close> where it raises.\<close>

definition parse_rating :: "(ustring \<Rightarrow> pyfloat option) \<Rightarrow> node \<Rightarrow> pyfloat" where
  "parse_rating float_of li =
     (case find_class (ascii ''span'') (ascii ''rating_num'') li of
        None \<Rightarrow> 0
      | Some rating_tag \<Rightarrow>
          (case float_of (get_text rating_tag) of None \<Rightarrow> 0 | Some r \<Rightarrow> r))"

text \<open>
  Votes.  The loop over the spans of the \<^verbatim>\<open>bd\<close> block stops at the first span whose text
  has the marker; \<open>marked_span_text\<close> is that text.  When the count is still 0 after it,
  the last span of the \<^verbatim>\<open>star\<close> block is read.
\<close>

definition marked_span_text :: "node \<Rightarrow> ustring option" where
  "marked_span_text li =
     (case find_class (ascii ''div'') (ascii ''bd'') li of
        None \<Rightarrow> None
      | Some rating_div \<Rightarrow>
          List.find (\<lambda>span_text. py_contains people_rated span_text \<or> py_contains rated span_text)
            (map get_text (find_all (ascii ''span'') rating_div)))"

definition star_span_text :: "node \<Rightarrow> ustring option" where
  "star_span_text li =
     (case find_class (ascii ''div'') (ascii ''star'') li of
        None \<Rightarrow> None
      | Some star_div \<Rightarrow>
          (let vote_spans = find_all (ascii ''span'') star_div
           in if vote_spans = [] then None else Some (get_text (last vote_spans))))"

definition parse_votes :: "node \<Rightarrow> error + int" where
  "parse_votes li =
     (case (case marked_span_text li of None \<Rightarrow> Inr 0 | Some t \<Rightarrow> extract_vote_count t) of
        Inl e \<Rightarrow> Inl e
      | Inr v \<Rightarrow>
          if v = 0
          then (case star_span_text li of None \<Rightarrow> Inr v | Some t \<Rightarrow> extract_vote_count t)
          else Inr v)"

definition parse_quote :: "node \<Rightarrow> ustring option" where
  "parse_quote li = map_option get_text (find_class (ascii ''span'') (ascii ''inq'') li)"

definition parse_movie :: "(ustring \<Rightarrow> pyfloat option) \<Rightarrow> node \<Rightarrow> error + movie" where
  "parse_movie float_of li =
     (case parse_rank li of
        Inl e \<Rightarrow> Inl e
      | Inr rk \<Rightarrow>
          (case parse_votes li of
             Inl e \<Rightarrow> Inl e
           | Inr vt \<Rightarrow>
               Inr \<lparr> rank = rk,
                     title = fst (parse_titles li),
                     original_title = snd (parse_titles li),
                     year = fst (parse_metadata li),
                     country = fst (snd (parse_metadata li)),
                     genres = snd (snd (parse_metadata li)),
                     rating = parse_rating float_of li,
                     votes = vt,
                     quote = parse_quote li,
                     detail_url = parse_detail_url li,
                     poster_url = parse_poster_url li,
                     is_playable = parse_is_playable li,
                     directors = fst (parse_credits li),
                     actors = snd (parse_credits li) \<rparr>))"

section \<open>The file system and the cache store\<close>

subsection \<open>Files\<close>

text \<open>
  What a file holds is kept up to what reading it as JSON makes of it: the JSON document
  its text denotes, \<open>Malformed\<close> for a text that denotes none (the empty text of a file
  that was just truncated is one), \<open>Undecodable\<close> for bytes that are no UTF-8 text.  The
  layout of a document as text (\<^verbatim>\<open>indent=2\<close>, \<^verbatim>\<open>ensure_ascii=False\<close>) is not modelled;
  what the \<^verbatim>\<open>json\<close> module does to the values on the way is.
\<close>

datatype json =
    JNull
  | JBool bool
  | JInt int
  | JFloat pyfloat
  | JStr ustring
  | JArr "json list"
  | JObj "(ustring \<times> json) list"

datatype content = Document json | Malformed | Undecodable

text \<open>
  The interpreter converts an integer to or from a decimal string of at most
  \<open>int_max_str_digits\<close> digits, the sign not counted, and raises \<^verbatim>\<open>ValueError\<close> beyond.
\<close>

function num_digits :: "nat \<Rightarrow> nat" where
  "num_digits n = (if n < 10 then 1 else Suc (num_digits (n div 10)))"
  by pat_completeness auto
termination
  by (relation "measure (\<lambda>n. n)") auto

definition int_fits :: "int \<Rightarrow> bool" where
  "int_fits n \<longleftrightarrow> num_digits (nat \<bar>n\<bar>) \<le> int_max_str_digits"

fun json_fits :: "json \<Rightarrow> bool" where
  "json_fits (JInt n) = int_fits n"
| "json_fits (JArr vs) = list_all json_fits vs"
| "json_fits (JObj kvs) = list_all (\<lambda>(k, v). json_fits v) kvs"
| "json_fits v = True"

text \<open>
  The value a document is read as.  Every NaN is written \<^verbatim>\<open>NaN\<close>, which is read as the
  one NaN \<open>json_nan\<close>; any other float is written so that it is read back bit for bit.
  An object is read into a \<^verbatim>\<open>dict\<close>: of the members with one key the last gives the
  value, at the place of the first.
\<close>

definition json_nan :: pyfloat where
  "json_nan = 0x7FF8000000000000"

fun put :: "ustring \<Rightarrow> json \<Rightarrow> (ustring \<times> json) list \<Rightarrow> (ustring \<times> json) list" where
  "put k v [] = [(k, v)]"
| "put k v ((k', v') # kvs) = (if k' = k then (k, v) # kvs else (k', v') # put k v kvs)"

definition py_dict :: "(ustring \<times> json) list \<Rightarrow> (ustring \<times> json) list" where
  "py_dict kvs = foldl (\<lambda>d (k, v). put k v d) [] kvs"

fun json_read :: "json \<Rightarrow> json" where
  "json_read (JFloat r) = JFloat (if float_is_nan r then json_nan else r)"
| "json_read (JArr vs) = JArr (map json_read vs)"
| "json_read (JObj kvs) = JObj (py_dict (map (\<lambda>(k, v). (k, json_read v)) kvs))"
| "json_read v = v"

text \<open>
  \<^verbatim>\<open>json.dumps\<close> on a value of lists, \<^verbatim>\<open>dict\<close>s with string keys and scalars: it raises on
  an integer that is too long, and otherwise gives a text, kept as the document that
  text denotes.  \<^verbatim>\<open>json.loads\<close> on the text of a file raises on a text that is no document
  and on an integer that is too long.
\<close>

definition json_dumps :: "json \<Rightarrow> error + json" where
  "json_dumps d = (if json_fits d then Inr (json_read d) else Inl exceeds_limit)"

definition json_loads :: "content \<Rightarrow> error + json" where
  "json_loads t =
     (case t of
        Malformed \<Rightarrow> Inl JSONDecodeError
      | Undecodable \<Rightarrow> Inl UnicodeDecodeError
      | Document d \<Rightarrow> if json_fits d then Inr (json_read d) else Inl exceeds_limit)"

text \<open>A text can be encoded as UTF-8 when its strings and keys are plain.\<close>

fun json_plain :: "json \<Rightarrow> bool" where
  "json_plain (JStr x) = plain x"
| "json_plain (JArr vs) = list_all json_plain vs"
| "json_plain (JObj kvs) = list_all (\<lambda>(k, v). plain k \<and> json_plain v) kvs"
| "json_plain v = True"

text \<open>
  A path is the list of its components below the working directory, which is the empty
  path and always a directory.
\<close>

type_synonym path = "ustring list"

datatype entry = Dir | File content

type_synonym filesystem = "path \<Rightarrow> entry option"

definition lookup :: "filesystem \<Rightarrow> path \<Rightarrow> entry option" where
  "lookup fs p = (if p = [] then Some Dir else fs p)"

definition path_exists :: "filesystem \<Rightarrow> path \<Rightarrow> bool" where
  "path_exists fs p = (lookup fs p \<noteq> None)"

definition is_dir :: "filesystem \<Rightarrow> path \<Rightarrow> bool" where
  "is_dir fs p = (lookup fs p = Some Dir)"

text \<open>\<^verbatim>\<open>os.mkdir\<close>: one directory, whose parent must be a directory.\<close>

definition os_mkdir :: "filesystem \<Rightarrow> path \<Rightarrow> error + filesystem" where
  "os_mkdir fs p =
     (if lookup fs p \<noteq> None then Inl FileExistsError
      else (case lookup fs (butlast p) of
              None \<Rightarrow> Inl FileNotFoundError
            | Some (File t) \<Rightarrow> Inl NotADirectoryError
            | Some Dir \<Rightarrow> Inr (fs(p \<mapsto> Dir))))"

text \<open>
  \<^verbatim>\<open>Path.mkdir(parents=True, exist_ok=True)\<close> as pathlib writes it: try \<^verbatim>\<open>os.mkdir\<close>; on
  \<^verbatim>\<open>FileNotFoundError\<close> make the parent the same way and try once more; any other
  \<^verbatim>\<open>OSError\<close> is let through unless the path is a directory by now.
\<close>

definition mkdir_exist_ok :: "filesystem \<Rightarrow> path \<Rightarrow> error + filesystem" where
  "mkdir_exist_ok fs p =
     (case os_mkdir fs p of
        Inr fs' \<Rightarrow> Inr fs'
      | Inl e \<Rightarrow>
          if e = FileNotFoundError then Inl e
          else if is_dir fs p then Inr fs else Inl e)"

function mkdir_parents :: "filesystem \<Rightarrow> path \<Rightarrow> error + filesystem" where
  "mkdir_parents fs p =
     (case os_mkdir fs p of
        Inr fs' \<Rightarrow> Inr fs'
      | Inl e \<Rightarrow>
          if e = FileNotFoundError then
            (if p = [] then Inl e
             else (case mkdir_parents fs (butlast p) of
                     Inl e' \<Rightarrow> Inl e'
                   | Inr fs' \<Rightarrow> mkdir_exist_ok fs' p))
          else if is_dir fs p then Inr fs else Inl e)"
  by pat_completeness auto
termination
  by (relation "measure (\<lambda>(fs, p). length p)") auto

text \<open>
  \<^verbatim>\<open>Path.write_text\<close> opens the file for writing, which creates it or cuts it to length
  zero, then encodes the text and writes it, and closes the file.  When the text cannot
  be encoded, \<^verbatim>\<open>UnicodeEncodeError\<close> is raised with the file open: it stays empty.  The
  only text the scraper writes is one \<^verbatim>\<open>json.dumps\<close> made, so \<open>write_text\<close> takes the
  document of the text.  \<^verbatim>\<open>Path.read_text\<close> reads the file and decodes it.
\<close>

definition open_w :: "filesystem \<Rightarrow> path \<Rightarrow> error + filesystem" where
  "open_w fs p =
     (case lookup fs (butlast p) of
        None \<Rightarrow> Inl FileNotFoundError
      | Some (File t) \<Rightarrow> Inl NotADirectoryError
      | Some Dir \<Rightarrow>
          if lookup fs p = Some Dir then Inl IsADirectoryError
          else Inr (fs(p \<mapsto> File Malformed)))"

definition write_close :: "filesystem \<Rightarrow> path \<Rightarrow> content \<Rightarrow> filesystem" where
  "write_close fs p t = fs(p \<mapsto> File t)"

definition write_text :: "filesystem \<Rightarrow> path \<Rightarrow> json \<Rightarrow> error option \<times> filesystem" where
  "write_text fs p d =
     (case open_w fs p of
        Inl e \<Rightarrow> (Some e, fs)
      | Inr fs' \<Rightarrow>
          if json_plain d then (None, write_close fs' p (Document d))
          else (Some UnicodeEncodeError, fs'))"

text \<open>The states of the file system that another process can see while \<open>write_text\<close> runs.\<close>

definition write_text_states :: "filesystem \<Rightarrow> path \<Rightarrow> json \<Rightarrow> filesystem list" where
  "write_text_states fs p d =
     (case open_w fs p of
        Inl e \<Rightarrow> [fs]
      | Inr fs' \<Rightarrow> if json_plain d then [fs, fs', write_close fs' p (Document d)] else [fs, fs'])"

definition read_text :: "filesystem \<Rightarrow> path \<Rightarrow> error + content" where
  "read_text fs p =
     (case lookup fs p of
        None \<Rightarrow> Inl FileNotFoundError
      | Some Dir \<Rightarrow> Inl IsADirectoryError
      | Some (File Undecodable) \<Rightarrow> Inl UnicodeDecodeError
      | Some (File t) \<Rightarrow> Inr t)"

subsection \<open>Records as JSON objects\<close>

definition json_opt_str :: "ustring option \<Rightarrow> json" where
  "json_opt_str v = (case v of None \<Rightarrow> JNull | Some x \<Rightarrow> JStr x)"

definition json_opt_int :: "int option \<Rightarrow> json" where
  "json_opt_int v = (case v of None \<Rightarrow> JNull | Some n \<Rightarrow> JInt n)"

text \<open>\<^verbatim>\<open>dataclasses.asdict\<close>: every field of the record, in the order of the class.\<close>

definition asdict :: "movie \<Rightarrow> (ustring \<times> json) list" where
  "asdict m =
     [(ascii ''rank'', JInt (rank m)),
      (ascii ''title'', JStr (title m)),
      (ascii ''original_title'', json_opt_str (original_title m)),
      (ascii ''year'', json_opt_int (year m)),
      (ascii ''country'', json_opt_str (country m)),
      (ascii ''genres'', JArr (map JStr (genres m))),
      (ascii ''rating'', JFloat (rating m)),
      (ascii ''votes'', JInt (votes m)),
      (ascii ''quote'', json_opt_str (quote m)),
      (ascii ''detail_url'', JStr (detail_url m)),
      (ascii ''poster_url'', json_opt_str (poster_url m)),
      (ascii ''is_playable'', JBool (is_playable m)),
      (ascii ''directors'', JArr (map JStr (directors m))),
      (ascii ''actors'', JArr (map JStr (actors m)))]"

definition field_names :: "ustring list" where
  "field_names =
     [ascii ''rank'', ascii ''title'', ascii ''original_title'', ascii ''year'',
      ascii ''country'', ascii ''genres'', ascii ''rating'', ascii ''votes'', ascii ''quote'',
      ascii ''detail_url'', ascii ''poster_url'', ascii ''is_playable'', ascii ''directors'',
      ascii ''actors'']"

text \<open>The fields without a default: the first ten.\<close>

definition required_fields :: "ustring list" where
  "required_fields = take 10 field_names"

text \<open>
  What a keyword argument must be for the field to have its declared type.  A missing
  \<^verbatim>\<open>poster_url\<close> is \<^verbatim>\<open>None\<close>, a missing \<^verbatim>\<open>is_playable\<close> is \<^verbatim>\<open>False\<close>, and \<^verbatim>\<open>__post_init__\<close>
  turns a missing or null \<^verbatim>\<open>directors\<close> or \<^verbatim>\<open>actors\<close> into the empty list.
\<close>

definition as_int :: "json option \<Rightarrow> int option" where
  "as_int v = (case v of Some (JInt n) \<Rightarrow> Some n | _ \<Rightarrow> None)"

definition as_str :: "json option \<Rightarrow> ustring option" where
  "as_str v = (case v of Some (JStr x) \<Rightarrow> Some x | _ \<Rightarrow> None)"

definition as_float :: "json option \<Rightarrow> pyfloat option" where
  "as_float v = (case v of Some (JFloat r) \<Rightarrow> Some r | _ \<Rightarrow> None)"

definition as_opt_int :: "json option \<Rightarrow> int option option" where
  "as_opt_int v =
     (case v of Some JNull \<Rightarrow> Some None | Some (JInt n) \<Rightarrow> Some (Some n) | _ \<Rightarrow> None)"

definition as_opt_str :: "json option \<Rightarrow> ustring option option" where
  "as_opt_str v =
     (case v of
        None \<Rightarrow> Some None
      | Some JNull \<Rightarrow> Some None
      | Some (JStr x) \<Rightarrow> Some (Some x)
      | _ \<Rightarrow> None)"

definition as_bool :: "json option \<Rightarrow> bool option" where
  "as_bool v = (case v of None \<Rightarrow> Some False | Some (JBool b) \<Rightarrow> Some b | _ \<Rightarrow> None)"

fun as_strs :: "json list \<Rightarrow> ustring list option" where
  "as_strs [] = Some []"
| "as_strs (JStr x # vs) = map_option ((#) x) (as_strs vs)"
| "as_strs (v # vs) = None"

definition as_str_list :: "json option \<Rightarrow> ustring list option" where
  "as_str_list v = (case v of Some (JArr vs) \<Rightarrow> as_strs vs | _ \<Rightarrow> None)"

definition post_init :: "json option \<Rightarrow> ustring list option" where
  "post_init v =
     (case v of None \<Rightarrow> Some [] | Some JNull \<Rightarrow> Some [] | _ \<Rightarrow> as_str_list v)"

definition typed_fields :: "(ustring \<times> json) list \<Rightarrow> movie option" where
  "typed_fields d =
     (case (as_int (map_of d (ascii ''rank'')), as_str (map_of d (ascii ''title'')),
            as_opt_str (map_of d (ascii ''original_title'')),
            as_opt_int (map_of d (ascii ''year'')),
            as_opt_str (map_of d (ascii ''country'')),
            as_str_list (map_of d (ascii ''genres'')), as_float (map_of d (ascii ''rating''))) of
        (Some rk, Some tt, Some ot, Some yr, Some ct, Some gs, Some rt) \<Rightarrow>
          (case (as_int (map_of d (ascii ''votes'')), as_opt_str (map_of d (ascii ''quote'')),
                 as_str (map_of d (ascii ''detail_url'')),
                 as_opt_str (map_of d (ascii ''poster_url'')),
                 as_bool (map_of d (ascii ''is_playable'')),
                 post_init (map_of d (ascii ''directors'')),
                 post_init (map_of d (ascii ''actors''))) of
             (Some vt, Some qt, Some du, Some pu, Some pl, Some ds, Some acs) \<Rightarrow>
               Some \<lparr> rank = rk, title = tt, original_title = ot, year = yr, country = ct,
                      genres = gs, rating = rt, votes = vt, quote = qt, detail_url = du,
                      poster_url = pu, is_playable = pl, directors = ds, actors = acs \<rparr>
           | _ \<Rightarrow> None)
      | _ \<Rightarrow> None)"

text \<open>
  \<^verbatim>\<open>Movie(**d)\<close>: a key that is no field, or a field without default that is missing, is a
  \<^verbatim>\<open>TypeError\<close>.  Python stores any value in any field; the record is typed, so a value
  of another type than the field's ends in \<open>OffType\<close>.
\<close>

definition movie_kwargs :: "(ustring \<times> json) list \<Rightarrow> error + movie" where
  "movie_kwargs d =
     (if list_ex (\<lambda>k. k \<notin> set field_names) (map fst d) then Inl TypeError
      else if list_ex (\<lambda>k. map_of d k = None) required_fields then Inl TypeError
      else (case typed_fields d of None \<Rightarrow> Inl OffType | Some m \<Rightarrow> Inr m))"

text \<open>A list comprehension stops at the first element that raises.\<close>

fun collect :: "(error + 'a) list \<Rightarrow> error + 'a list" where
  "collect [] = Inr []"
| "collect (x # xs) =
     (case x of
        Inl e \<Rightarrow> Inl e
      | Inr v \<Rightarrow> (case collect xs of Inl e \<Rightarrow> Inl e | Inr vs \<Rightarrow> Inr (v # vs)))"

text \<open>
  \<^verbatim>\<open>[Movie(**movie_dict) for movie_dict in raw]\<close>: \<open>raw\<close> is iterated, so an empty object
  or string gives no record, and anything else that is not an array of objects is a
  \<^verbatim>\<open>TypeError\<close>.
\<close>

definition movies_of_json :: "json \<Rightarrow> error + movie list" where
  "movies_of_json raw =
     (case raw of
        JArr vs \<Rightarrow>
          collect (map (\<lambda>v. case v of JObj d \<Rightarrow> movie_kwargs d | _ \<Rightarrow> Inl TypeError) vs)
      | JObj d \<Rightarrow> if d = [] then Inr [] else Inl TypeError
      | JStr x \<Rightarrow> if x = [] then Inr [] else Inl TypeError
      | _ \<Rightarrow> Inl TypeError)"

section \<open>The scraper\<close>

record scraper =
  cache_dir :: path
  cache_path :: path
  use_cache :: bool
  min_delay :: pyfloat
  max_delay :: pyfloat

text \<open>The constructor.  The cache directory is given by its components and the name of
  the cache file is one component.  The HTTP session it opens has no part in what
  follows.\<close>

definition init ::
  "path \<Rightarrow> ustring \<Rightarrow> bool \<Rightarrow> pyfloat \<Rightarrow> pyfloat \<Rightarrow> filesystem \<Rightarrow> error + scraper \<times> filesystem"
where
  "init dir filename uc dmin dmax fs =
     (case mkdir_parents fs dir of
        Inl e \<Rightarrow> Inl e
      | Inr fs' \<Rightarrow>
          Inr (\<lparr> cache_dir = dir, cache_path = dir @ [filename], use_cache = uc,
                  min_delay = dmin, max_delay = dmax \<rparr>, fs'))"

text \<open>\<^verbatim>\<open>_write_cache\<close>: the text is made before the file is opened.\<close>

definition write_cache :: "scraper \<Rightarrow> movie list \<Rightarrow> filesystem \<Rightarrow> error option \<times> filesystem" where
  "write_cache self movies fs =
     (let data = JArr (map (\<lambda>m. JObj (asdict m)) movies)
      in case json_dumps data of
           Inl e \<Rightarrow> (Some e, fs)
         | Inr d \<Rightarrow> write_text fs (cache_path self) d)"

definition write_cache_states :: "scraper \<Rightarrow> movie list \<Rightarrow> filesystem \<Rightarrow> filesystem list" where
  "write_cache_states self movies fs =
     (let data = JArr (map (\<lambda>m. JObj (asdict m)) movies)
      in case json_dumps data of
           Inl e \<Rightarrow> [fs]
         | Inr d \<Rightarrow> write_text_states fs (cache_path self) d)"

definition load_from_cache :: "scraper \<Rightarrow> filesystem \<Rightarrow> error + movie list" where
  "load_from_cache self fs =
     (case read_text fs (cache_path self) of
        Inl e \<Rightarrow> Inl e
      | Inr t \<Rightarrow> (case json_loads t of Inl e \<Rightarrow> Inl e | Inr raw \<Rightarrow> movies_of_json raw))"

subsection \<open>Fetching\<close>

text \<open>
  The outside world of a fetch: the files, and the trace of what the scraper did to the
  network and the clock.  The server is a function from the \<^verbatim>\<open>start\<close> parameter to what it
  answers: a status with the parsed markup of the body, or nothing when the request
  itself raises (time-out, connection error).  The trace has a \<open>Sleep\<close> for each pause
  that was taken.
\<close>

datatype event = Request nat | Sleep

record world =
  files :: filesystem
  trace :: "event list"

datatype response = Response nat node | NoResponse

definition no_movies_list :: error where
  "no_movies_list = ValueError ''Unable to locate movies list on the page.''"

text \<open>
  The items of a page; an item whose extraction raises is skipped.  The message
  printed for it has the text of the \<^verbatim>\<open>ValueError\<close>, in which \<^verbatim>\<open>int()\<close> quotes its argument
  with the escapes of \<^verbatim>\<open>repr\<close>; standard output is taken to be open with a UTF encoding,
  as the interpreter sets it up by default, so that printing the message does not raise.
\<close>

definition page_items :: "(ustring \<Rightarrow> pyfloat option) \<Rightarrow> node \<Rightarrow> movie list" where
  "page_items float_of grid_view =
     List.map_filter
       (\<lambda>li. case parse_movie float_of li of Inl e \<Rightarrow> None | Inr m \<Rightarrow> Some m)
       (find_all (ascii ''li'') grid_view)"

definition fetch_page ::
  "(ustring \<Rightarrow> pyfloat option) \<Rightarrow> (nat \<Rightarrow> response) \<Rightarrow> nat \<Rightarrow> world \<Rightarrow> (error + movie list) \<times> world"
where
  "fetch_page float_of server start w =
     (let w' = w\<lparr>trace := trace w @ [Request start]\<rparr>
      in case server start of
           NoResponse \<Rightarrow> (Inl RequestException, w')
         | Response status soup \<Rightarrow>
             if 400 \<le> status \<and> status < 600 then (Inl (HTTPError status), w')
             else (case find_class (ascii ''ol'') (ascii ''grid_view'') soup of
                     None \<Rightarrow> (Inl no_movies_list, w')
                   | Some grid_view \<Rightarrow> (Inr (page_items float_of grid_view), w')))"

text \<open>
  \<^verbatim>\<open>time.sleep(secs)\<close> of CPython 3.11 on a float.  It converts the length to a count of
  nanoseconds in 64 bits, rounding away from zero: that raises \<^verbatim>\<open>ValueError\<close> on a NaN and
  \<^verbatim>\<open>OverflowError\<close> on a length of \<open>2 ^ 63\<close> nanoseconds or more, or below \<open>- (2 ^ 63)\<close>
  nanoseconds.  Then it raises \<^verbatim>\<open>ValueError\<close> on a negative count, which any length below
  zero gives (\<^verbatim>\<open>-0.0\<close> is zero).  Whether the operating system then takes the length is
  the system's matter (Linux refuses \<open>9.2e9\<close> seconds): \<open>os_sleeps\<close> says so.
\<close>

definition timestamp_overflows :: "pyfloat \<Rightarrow> bool" where
  "timestamp_overflows secs \<longleftrightarrow>
     (if float_sign secs then 0x42012E0BE826D696 \<le> float_magnitude secs
      else 0x42012E0BE826D695 \<le> secs)"

definition sleep_error :: "(pyfloat \<Rightarrow> bool) \<Rightarrow> pyfloat \<Rightarrow> error option" where
  "sleep_error os_sleeps secs =
     (if float_is_nan secs then Some (ValueError ''Invalid value NaN (not a number)'')
      else if timestamp_overflows secs then Some OverflowError
      else if float_sign secs \<and> float_magnitude secs \<noteq> 0
      then Some (ValueError ''sleep length must be non-negative'')
      else if os_sleeps secs then None
      else Some OSError)"

text \<open>
  What the scraper does not decide about a pause: the number \<^verbatim>\<open>random.uniform\<close> draws
  from the two bounds, and whether the system sleeps for a length.  Each pause of a pass
  has a draw of its own: \<open>uniform\<close> is given the offset of the page the pause follows.
\<close>

record clock =
  uniform :: "nat \<Rightarrow> pyfloat \<Rightarrow> pyfloat \<Rightarrow> pyfloat"
  os_sleeps :: "pyfloat \<Rightarrow> bool"

text \<open>\<^verbatim>\<open>_respectful_delay\<close>, called after the page at offset \<open>start\<close>.\<close>

definition respectful_delay :: "scraper \<Rightarrow> clock \<Rightarrow> nat \<Rightarrow> world \<Rightarrow> error option \<times> world" where
  "respectful_delay self clk start w =
     (let delay = uniform clk start (min_delay self) (max_delay self)
      in case sleep_error (os_sleeps clk) delay of
           Some e \<Rightarrow> (Some e, w)
         | None \<Rightarrow> (None, w\<lparr>trace := trace w @ [Sleep]\<rparr>))"

text \<open>\<^verbatim>\<open>range(start, stop, step)\<close> for a positive step.\<close>

definition py_range :: "nat \<Rightarrow> nat \<Rightarrow> nat \<Rightarrow> nat list" where
  "py_range start stop step =
     map (\<lambda>k. start + step * k) [0 ..< (stop - start + step - 1) div step]"

text \<open>The loop of \<^verbatim>\<open>fetch_movies\<close> over the page offsets.\<close>

fun fetch_loop ::
  "scraper \<Rightarrow> (ustring \<Rightarrow> pyfloat option) \<Rightarrow> (nat \<Rightarrow> response) \<Rightarrow> clock \<Rightarrow> nat list \<Rightarrow>
     movie list \<Rightarrow> world \<Rightarrow> (error + movie list) \<times> world"
where
  "fetch_loop self float_of server clk [] movies w = (Inr movies, w)"
| "fetch_loop self float_of server clk (start # rest) movies w =
     (case fetch_page float_of server start w of
        (Inl e, w') \<Rightarrow> (Inl e, w')
      | (Inr page_movies, w') \<Rightarrow>
          (case respectful_delay self clk start w' of
             (Some e, w'') \<Rightarrow> (Inl e, w'')
           | (None, w'') \<Rightarrow>
               fetch_loop self float_of server clk rest (movies @ page_movies) w''))"

text \<open>\<^verbatim>\<open>fetch_movies\<close>.  A cache write that raises may have emptied the file first.\<close>

definition fetch_movies ::
  "scraper \<Rightarrow> (ustring \<Rightarrow> pyfloat option) \<Rightarrow> (nat \<Rightarrow> response) \<Rightarrow> clock \<Rightarrow> bool \<Rightarrow> world
     \<Rightarrow> (error + movie list) \<times> world"
where
  "fetch_movies self float_of server clk force_refresh w =
     (if use_cache self \<and> \<not> force_refresh \<and> path_exists (files w) (cache_path self)
      then (load_from_cache self (files w), w)
      else
        (case fetch_loop self float_of server clk (py_range 0 250 25) [] w of
           (Inl e, w') \<Rightarrow> (Inl e, w')
         | (Inr movies, w') \<Rightarrow>
             if use_cache self
             then (case write_cache self movies (files w') of
                     (Some e, fs') \<Rightarrow> (Inl e, w'\<lparr>files := fs'\<rparr>)
                   | (None, fs') \<Rightarrow> (Inr movies, w'\<lparr>files := fs'\<rparr>))
             else (Inr movies, w')))"

section \<open>Notions used to state the properties\<close>

text \<open>A page is served when the request returns without an error status and the markup
  has the list of movies.\<close>

definition page_served :: "(nat \<Rightarrow> response) \<Rightarrow> nat \<Rightarrow> bool" where
  "page_served server start =
     (case server start of
        NoResponse \<Rightarrow> False
      | Response status soup \<Rightarrow>
          \<not> (400 \<le> status \<and> status < 600) \<and>
          find_class (ascii ''ol'') (ascii ''grid_view'') soup \<noteq> None)"

definition page_movies ::
  "(ustring \<Rightarrow> pyfloat option) \<Rightarrow> (nat \<Rightarrow> response) \<Rightarrow> nat \<Rightarrow> movie list"
where
  "page_movies float_of server start =
     (case server start of
        NoResponse \<Rightarrow> []
      | Response status soup \<Rightarrow>
          (case find_class (ascii ''ol'') (ascii ''grid_view'') soup of
             None \<Rightarrow> []
           | Some grid_view \<Rightarrow> page_items float_of grid_view))"

text \<open>The trace of pages that were fetched and followed by the pause.\<close>

definition visits :: "nat list \<Rightarrow> event list" where
  "visits starts = concat (map (\<lambda>start. [Request start, Sleep]) starts)"

text \<open>The pause after the page at offset \<open>start\<close> is taken: \<^verbatim>\<open>time.sleep\<close> accepts the
  length that is drawn for it.\<close>

definition delay_valid :: "scraper \<Rightarrow> clock \<Rightarrow> nat \<Rightarrow> bool" where
  "delay_valid self clk start \<longleftrightarrow>
     sleep_error (os_sleeps clk) (uniform clk start (min_delay self) (max_delay self)) = None"

text \<open>What a file holds that has the text \<^verbatim>\<open>_write_cache\<close> makes of a list of records.\<close>

definition cache_document :: "movie list \<Rightarrow> content" where
  "cache_document movies = Document (json_read (JArr (map (\<lambda>m. JObj (asdict m)) movies)))"

text \<open>A record as the cache gives it back: a rating that is a NaN has become the one NaN
  of JSON.\<close>

definition stored :: "movie \<Rightarrow> movie" where
  "stored m = m\<lparr>rating := (if float_is_nan (rating m) then json_nan else rating m)\<rparr>"

definition rating_not_nan :: "movie \<Rightarrow> bool" where
  "rating_not_nan m \<longleftrightarrow> \<not> float_is_nan (rating m)"

text \<open>The integers of a record are short enough to be written in decimal, and its
  strings are plain.\<close>

definition fits_limit :: "movie \<Rightarrow> bool" where
  "fits_limit m \<longleftrightarrow>
     int_fits (rank m) \<and> (case year m of None \<Rightarrow> True | Some y \<Rightarrow> int_fits y) \<and>
     int_fits (votes m)"

definition plain_opt :: "ustring option \<Rightarrow> bool" where
  "plain_opt v = (case v of None \<Rightarrow> True | Some x \<Rightarrow> plain x)"

definition plain_text :: "movie \<Rightarrow> bool" where
  "plain_text m \<longleftrightarrow>
     plain (title m) \<and> plain_opt (original_title m) \<and> plain_opt (country m) \<and>
     list_all plain (genres m) \<and> plain_opt (quote m) \<and> plain (detail_url m) \<and>
     plain_opt (poster_url m) \<and> list_all plain (directors m) \<and> list_all plain (actors m)"

subsection \<open>Sample data\<close>

definition no_float :: "ustring \<Rightarrow> pyfloat option" where
  "no_float s = None"

text \<open>A reader of floats for the sample items: of the texts they hold it reads \<^verbatim>\<open>9.7\<close>.\<close>

definition sample_float :: "ustring \<Rightarrow> pyfloat option" where
  "sample_float s = (if s = ascii ''9.7'' then Some 0x4023666666666666 else None)"

text \<open>A clock whose draw is the lower bound and whose system sleeps for any length.\<close>

definition steady_clock :: clock where
  "steady_clock = \<lparr> uniform = (\<lambda>start a b. a), os_sleeps = (\<lambda>secs. True) \<rparr>"

definition no_files :: filesystem where
  "no_files p = None"

definition plain_scraper :: scraper where
  "plain_scraper =
     \<lparr> cache_dir = [ascii ''data''], cache_path = [ascii ''data'', ascii ''douban_top250.json''],
       use_cache = False, min_delay = 0x3FF0000000000000, max_delay = 0x4004000000000000 \<rparr>"

definition local_scraper :: scraper where
  "local_scraper =
     \<lparr> cache_dir = [], cache_path = [ascii ''douban_top250.json''],
       use_cache = True, min_delay = 0x3FF0000000000000, max_delay = 0x4004000000000000 \<rparr>"

text \<open>A scraper whose two bounds are \<^verbatim>\<open>-1.0\<close>.\<close>

definition hasty_scraper :: scraper where
  "hasty_scraper =
     \<lparr> cache_dir = [ascii ''data''], cache_path = [ascii ''data'', ascii ''douban_top250.json''],
       use_cache = False, min_delay = 0xBFF0000000000000, max_delay = 0xBFF0000000000000 \<rparr>"

definition empty_page :: node where
  "empty_page =
     Elem (ascii ''html'') [] [] [Elem (ascii ''ol'') [ascii ''grid_view''] [] []]"

definition blocked_page :: node where
  "blocked_page = Elem (ascii ''html'') [] [] [Text (ascii ''Forbidden'')]"

definition empty_pages :: "nat \<Rightarrow> response" where
  "empty_pages start = Response 200 empty_page"

definition blocked_third :: "nat \<Rightarrow> response" where
  "blocked_third start =
     (if start = 50 then Response 200 blocked_page else Response 200 empty_page)"

definition bare_movie :: movie where
  "bare_movie =
     \<lparr> rank = 0, title = [], original_title = None, year = None, country = None,
       genres = [], rating = 0, votes = 0, quote = None, detail_url = [],
       poster_url = None, is_playable = False, directors = [], actors = [] \<rparr>"

definition full_movie :: movie where
  "full_movie =
     \<lparr> rank = 1, title = [0x8096, 0x7533, 0x514B], original_title = Some (ascii ''The Shawshank Redemption''),
       year = Some 1994, country = Some [0x7F8E, 0x56FD],
       genres = [[0x5267, 0x60C5, 0x20, 0x72AF, 0x7F6A]], rating = 0x4023666666666666,
       votes = 1234567, quote = Some (ascii ''Hope''), detail_url = ascii ''https://movie.douban.com/subject/1292052/'',
       poster_url = Some (ascii ''p480747492.jpg''), is_playable = True,
       directors = [ascii ''Frank Darabont''], actors = [ascii ''Tim Robbins'', ascii ''Morgan Freeman''] \<rparr>"

text \<open>A record whose rating is the NaN that \<^verbatim>\<open>float("-nan")\<close> gives, and one whose title is
  a lone surrogate.\<close>

definition nan_movie :: movie where
  "nan_movie = bare_movie\<lparr>rating := 0xFFF8000000000000\<rparr>"

definition surrogate_movie :: movie where
  "surrogate_movie = bare_movie\<lparr>title := [0xD800]\<rparr>"

definition cached_files :: filesystem where
  "cached_files = no_files([ascii ''douban_top250.json''] \<mapsto> File (cache_document [full_movie, bare_movie]))"

subsection \<open>File systems\<close>

text \<open>In a well-formed file system every entry lies in a directory.\<close>

definition well_formed :: "filesystem \<Rightarrow> bool" where
  "well_formed fs \<longleftrightarrow> (\<forall>p. fs p \<noteq> None \<longrightarrow> p \<noteq> [] \<and> lookup fs (butlast p) = Some Dir)"

text \<open>No file stands where a directory of the path is to be.\<close>

definition no_file_above :: "filesystem \<Rightarrow> path \<Rightarrow> bool" where
  "no_file_above fs p \<longleftrightarrow> (\<forall>q t. prefix q p \<longrightarrow> lookup fs q \<noteq> Some (File t))"

text \<open>The file system with the missing directories of a path added.\<close>

definition with_dirs :: "filesystem \<Rightarrow> path \<Rightarrow> filesystem" where
  "with_dirs fs p = (\<lambda>q. if prefix q p \<and> lookup fs q = None then Some Dir else fs q)"

subsection \<open>Numbers in decimal\<close>

text \<open>The number a string of decimal digits denotes.\<close>

definition digit_value :: "nat \<Rightarrow> nat" where
  "digit_value c = (case decimal c of None \<Rightarrow> 0 | Some d \<Rightarrow> d)"

definition decimal_value :: "ustring \<Rightarrow> nat" where
  "decimal_value s = horner (map digit_value s)"

text \<open>The characters an integer literal is made of.\<close>

definition literal_char :: "nat \<Rightarrow> bool" where
  "literal_char c = (is_decimal c \<or> c = 43 \<or> c = 45 \<or> c = 95 \<or> isspace c)"

text \<open>The segments of a metadata line as the specification words them: the line with its
  non-breaking spaces made plain, split on the slash, each piece trimmed.\<close>

definition trimmed_segments :: "ustring \<Rightarrow> ustring list" where
  "trimmed_segments metadata_line =
     map py_strip
       (py_split (ascii ''/'')
          (py_replace (ascii ''&nbsp;'') (ascii '' '')
             (py_replace [0xA0] (ascii '' '') metadata_line)))"

subsection \<open>Sample items\<close>

definition ranked_item :: node where
  "ranked_item =
     Elem (ascii ''li'') [] []
       [Elem (ascii ''em'') [] [] [Text (ascii '' 7 '')]]"

definition unranked_item :: node where
  "unranked_item =
     Elem (ascii ''li'') [] []
       [Elem (ascii ''span'') [ascii ''title''] [] [Text [0x8096, 0x7533, 0x514B]]]"

definition misranked_item :: node where
  "misranked_item =
     Elem (ascii ''li'') [] []
       [Elem (ascii ''em'') [] [] [Text (ascii ''n/a'')],
        Elem (ascii ''span'') [ascii ''title''] [] [Text [0x8096, 0x7533, 0x514B]]]"

text \<open>The info block of a listing: a line of credits, a line break, and the metadata
  line of the specification's example (the year 1994, a country of two characters, one
  genre token of two words with a plain space between them), with non-breaking spaces
  around its slashes.\<close>

definition metadata_item :: node where
  "metadata_item =
     Elem (ascii ''li'') [] []
       [Elem (ascii ''p'') [] []
          [Text (10 # ascii ''   '' @ director_marker @ ascii '' Frank Darabont''),
           Elem (ascii ''br'') [] [] [],
           Text (10 # ascii ''   1994'' @ [0xA0, 47, 0xA0, 0x7F8E, 0x56FD, 0xA0, 47, 0xA0,
                   0x5267, 0x60C5, 32, 0x72AF, 0x7F6A, 10, 32])]]"

text \<open>A metadata line without a country: the year, an empty segment, one genre.\<close>

definition gap_line :: ustring where
  "gap_line = ascii ''1994 / / '' @ [0x5267, 0x60C5]"

definition gap_item :: node where
  "gap_item = Elem (ascii ''li'') [] [] [Elem (ascii ''p'') [] [] [Text gap_line]]"


text \<open>A star block without a ratings block around it; its last span reads \<^verbatim>\<open>(88)\<close>.\<close>

definition star_item :: node where
  "star_item =
     Elem (ascii ''li'') [] []
       [Elem (ascii ''div'') [ascii ''star''] []
          [Elem (ascii ''span'') [ascii ''rating_num''] [] [Text (ascii ''9.7'')],
           Elem (ascii ''span'') [] [] [Text (ascii ''(88)'')]]]"

text \<open>A ratings block whose second span reads \<^verbatim>\<open>12\<close>, a superscript two, and the marker.\<close>

definition squared_text :: ustring where
  "squared_text = ascii ''12'' @ [0xB2] @ people_rated"

definition squared_item :: node where
  "squared_item =
     Elem (ascii ''li'') [] []
       [Elem (ascii ''div'') [ascii ''bd''] []
          [Elem (ascii ''div'') [ascii ''star''] []
             [Elem (ascii ''span'') [ascii ''rating_num''] [] [Text (ascii ''9.7'')],
              Elem (ascii ''span'') [] [] [Text squared_text]]]]"

text \<open>A page of two items: the first has a rank that is no number.\<close>

definition mixed_pages :: "nat \<Rightarrow> response" where
  "mixed_pages start =
     Response 200
       (Elem (ascii ''html'') [] []
          [Elem (ascii ''ol'') [ascii ''grid_view''] [] [misranked_item, ranked_item]])"

text \<open>One title span, and two other titles, each after a slash.\<close>

definition alias_item :: node where
  "alias_item =
     Elem (ascii ''li'') [] []
       [Elem (ascii ''span'') [ascii ''title''] [] [Text [0x8096, 0x7533, 0x514B]],
        Elem (ascii ''span'') [ascii ''other''] []
          [Text ([0xA0, 47, 0xA0, 0x6708, 0x9ED1, 0x9AD8, 0x98DE] @ ascii ''('' @ [0x6E2F] @
                 ascii '')  /  '' @ [0x523A, 0x6FC0] @ ascii ''1995('' @ [0x53F0] @ ascii '')'')]]"

section \<open>The orchestrator\<close>

lemma page_offsets: "py_range 0 250 25 = [0, 25, 50, 75, 100, 125, 150, 175, 200, 225]"
  by (simp add: py_range_def upt_rec)

lemma fetch_page_served:
  "page_served server start \<Longrightarrow>
   fetch_page float_of server start w =
     (Inr (page_movies float_of server start), w\<lparr>trace := trace w @ [Request start]\<rparr>)"
  by (auto simp: page_served_def page_movies_def fetch_page_def Let_def
      split: response.splits option.splits)

lemma respectful_delay_valid:
  "delay_valid self clk start \<Longrightarrow>
   respectful_delay self clk start w = (None, w\<lparr>trace := trace w @ [Sleep]\<rparr>)"
  by (simp add: respectful_delay_def delay_valid_def)

lemma respectful_delay_invalid:
  "sleep_error (os_sleeps clk) (uniform clk start (min_delay self) (max_delay self)) = Some e \<Longrightarrow>
   respectful_delay self clk start w = (Some e, w)"
  by (simp add: respectful_delay_def)

lemma fetch_loop_served:
  "\<forall>start \<in> set starts. page_served server start \<and> delay_valid self clk start \<Longrightarrow>
   fetch_loop self float_of server clk starts movies w =
     (Inr (movies @ concat (map (page_movies float_of server) starts)),
      w\<lparr>trace := trace w @ visits starts\<rparr>)"
proof (induction starts arbitrary: movies w)
  case Nil
  then show ?case by (simp add: visits_def)
next
  case (Cons start rest)
  then show ?case
    by (simp add: fetch_page_served respectful_delay_valid visits_def)
qed

lemma fetch_loop_append:
  "fetch_loop self float_of server clk (xs @ ys) movies w =
     (case fetch_loop self float_of server clk xs movies w of
        (Inl e, w') \<Rightarrow> (Inl e, w')
      | (Inr ms, w') \<Rightarrow> fetch_loop self float_of server clk ys ms w')"
  by (induction xs arbitrary: movies w) (auto split: prod.splits sum.splits option.splits)

lemma fetch_page_no_list:
  "server start = Response status soup \<Longrightarrow> \<not> (400 \<le> status \<and> status < 600) \<Longrightarrow>
   find_class (ascii ''ol'') (ascii ''grid_view'') soup = None \<Longrightarrow>
   fetch_page float_of server start w =
     (Inl no_movies_list, w\<lparr>trace := trace w @ [Request start]\<rparr>)"
  by (auto simp: fetch_page_def Let_def)

lemma fetch_page_no_list_iff:
  "fst (fetch_page float_of server start w) = Inl no_movies_list \<longleftrightarrow>
     (\<exists>status soup. server start = Response status soup \<and>
        \<not> (400 \<le> status \<and> status < 600) \<and>
        find_class (ascii ''ol'') (ascii ''grid_view'') soup = None)"
  by (auto simp: fetch_page_def Let_def no_movies_list_def split: response.splits option.splits)



lemma empty_page_has_list:
  "find_class (ascii ''ol'') (ascii ''grid_view'') empty_page \<noteq> None"
  by (simp add: empty_page_def find_class_def find_all_class_def ascii_def)

lemma blocked_page_has_no_list:
  "find_class (ascii ''ol'') (ascii ''grid_view'') blocked_page = None"
  by (simp add: blocked_page_def find_class_def find_all_class_def ascii_def)

lemma empty_pages_served: "page_served empty_pages start"
  using empty_page_has_list by (simp add: page_served_def empty_pages_def)

lemmas sleep_eval = sleep_error_def timestamp_overflows_def float_is_nan_def
  float_magnitude_def float_sign_def

lemma steady_delay_valid:
  "delay_valid plain_scraper steady_clock start" "delay_valid local_scraper steady_clock start"
  by (simp_all add: delay_valid_def steady_clock_def plain_scraper_def local_scraper_def sleep_eval)

text \<open>
  A pause whose length \<^verbatim>\<open>time.sleep\<close> refuses ends the pass with the error of
  \<^verbatim>\<open>time.sleep\<close>; with bounds below zero that is after the first page.
\<close>

lemma invalid_delay_aborts:
  assumes "\<not> (use_cache self \<and> \<not> force_refresh \<and> path_exists (files w) (cache_path self))"
    and "page_served server 0"
    and "sleep_error (os_sleeps clk) (uniform clk 0 (min_delay self) (max_delay self)) = Some e"
  shows "fetch_movies self float_of server clk force_refresh w =
           (Inl e, w\<lparr>trace := trace w @ [Request 0]\<rparr>)"
proof -
  have no_hit:
    "(use_cache self \<and> \<not> force_refresh \<and> path_exists (files w) (cache_path self)) = False"
    using assms(1) by simp
  show ?thesis
    by (simp add: fetch_movies_def no_hit page_offsets fetch_page_served [OF assms(2)]
        respectful_delay_invalid [OF assms(3)])
qed

lemma negative_delay_aborts:
  "fetch_movies hasty_scraper no_float empty_pages steady_clock False
     \<lparr>files = no_files, trace = []\<rparr> =
     (Inl (ValueError ''sleep length must be non-negative''),
      \<lparr>files = no_files, trace = [Request 0]\<rparr>)"
proof -
  have a: "\<not> (use_cache hasty_scraper \<and> \<not> False \<and>
        path_exists (files \<lparr>files = no_files, trace = []\<rparr>) (cache_path hasty_scraper))"
    by (simp add: hasty_scraper_def)
  have b: "sleep_error (os_sleeps steady_clock)
             (uniform steady_clock 0 (min_delay hasty_scraper) (max_delay hasty_scraper)) =
           Some (ValueError ''sleep length must be non-negative'')"
    by (simp add: steady_clock_def hasty_scraper_def sleep_eval)
  show ?thesis
    using invalid_delay_aborts [OF a empty_pages_served b, of no_float] by simp
qed




text \<open>
  \<^bold>\<open>C4\<close>.  When the markup of a fetched page has no list of movies, the page fetcher
  raises the error \<open>no_movies_list\<close>, which it raises for this reason only; the error leaves
  the whole fetch pass, whose result is the error and no list of records, and the files
  are as they were: the world differs by the requests and pauses made up to that page.
  The pages before it are served and followed by a pause that \<^verbatim>\<open>time.sleep\<close> accepts.
\<close>

theorem missing_container_aborts:
  assumes "\<not> (use_cache self \<and> \<not> force_refresh \<and> path_exists (files w) (cache_path self))"
    and "k < 10"
    and "\<forall>j < k. page_served server (25 * j)"
    and "\<forall>j < k. delay_valid self clk (25 * j)"
    and "server (25 * k) = Response status soup"
    and "\<not> (400 \<le> status \<and> status < 600)"
    and "find_class (ascii ''ol'') (ascii ''grid_view'') soup = None"
  shows "fst (fetch_page float_of server (25 * k) w') = Inl no_movies_list \<and>
         (\<forall>start. fst (fetch_page float_of server start w') = Inl no_movies_list \<longleftrightarrow>
            (\<exists>st sp. server start = Response st sp \<and> \<not> (400 \<le> st \<and> st < 600) \<and>
               find_class (ascii ''ol'') (ascii ''grid_view'') sp = None)) \<and>
         fetch_movies self float_of server clk force_refresh w =
           (Inl no_movies_list,
            w\<lparr>trace := trace w @ visits (map (\<lambda>j. 25 * j) [0 ..< k]) @ [Request (25 * k)]\<rparr>)"
proof -
  have range:
    "py_range 0 250 25 =
       map (\<lambda>j. 25 * j) [0 ..< k] @ (25 * k) # map (\<lambda>j. 25 * j) [Suc k ..< 10]"
  proof -
    have "py_range 0 250 25 = map (\<lambda>j. 25 * j) [0 ..< 10]"
      by (simp add: py_range_def)
    also have "[0 ..< 10] = [0 ..< k] @ k # [Suc k ..< 10]"
      using assms(2)
      by (metis upt_conv_Cons upt_add_eq_append le0 less_imp_le_nat le_add_diff_inverse)
    finally show ?thesis by simp
  qed
  have served: "\<forall>start \<in> set (map (\<lambda>j. 25 * j) [0 ..< k]).
                  page_served server start \<and> delay_valid self clk start"
    using assms(3,4) by auto
  have no_hit:
    "(use_cache self \<and> \<not> force_refresh \<and> path_exists (files w) (cache_path self)) = False"
    using assms(1) by simp
  have pass: "fetch_movies self float_of server clk force_refresh w =
           (Inl no_movies_list,
            w\<lparr>trace := trace w @ visits (map (\<lambda>j. 25 * j) [0 ..< k]) @ [Request (25 * k)]\<rparr>)"
    by (simp add: fetch_movies_def no_hit range fetch_loop_append fetch_loop_served [OF served]
        fetch_page_no_list [of server "25 * k" status soup, OF assms(5,6,7)])
  have page: "fst (fetch_page float_of server (25 * k) w') = Inl no_movies_list"
    by (simp add: fetch_page_no_list [of server "25 * k" status soup, OF assms(5,6,7)])
  show ?thesis
    using pass page by (simp add: fetch_page_no_list_iff)
qed

theorem missing_container_aborts_witness:
  "fetch_movies local_scraper no_float blocked_third steady_clock False
     \<lparr>files = no_files, trace = []\<rparr> =
     (Inl (ValueError ''Unable to locate movies list on the page.''),
      \<lparr>files = no_files, trace = [Request 0, Sleep, Request 25, Sleep, Request 50]\<rparr>)"
proof -
  have a: "\<not> (use_cache local_scraper \<and> \<not> False \<and>
        path_exists (files \<lparr>files = no_files, trace = []\<rparr>) (cache_path local_scraper))"
    by (simp add: local_scraper_def path_exists_def lookup_def no_files_def)
  have b: "\<forall>j < 2. page_served blocked_third (25 * j)"
    using empty_page_has_list by (simp add: page_served_def blocked_third_def)
  have b': "\<forall>j < 2. delay_valid local_scraper steady_clock (25 * j)"
    by (simp add: steady_delay_valid)
  have c: "blocked_third (25 * 2) = Response 200 blocked_page"
    by (simp add: blocked_third_def)
  have d: "[0 ..< 2] = [0, Suc 0]"
    by (simp add: upt_rec)
  show ?thesis
    using missing_container_aborts [OF a _ b b' c _ blocked_page_has_no_list, of no_float]
    by (simp add: visits_def no_movies_list_def d)
qed

section \<open>The constructor and its directories\<close>

declare mkdir_parents.simps [simp del]

lemma ancestors_exist:
  "well_formed fs \<Longrightarrow> lookup fs p \<noteq> None \<Longrightarrow> prefix q p \<Longrightarrow> lookup fs q \<noteq> None"
proof (induction p rule: rev_induct)
  case Nil
  then show ?case by (simp add: lookup_def)
next
  case (snoc x ps)
  show ?case
  proof (cases "q = ps @ [x]")
    case True
    with snoc.prems show ?thesis by simp
  next
    case False
    with snoc.prems(3) have q: "prefix q ps" by (simp add: prefix_snoc)
    from snoc.prems(2) have "fs (ps @ [x]) \<noteq> None"
      by (simp add: lookup_def)
    with snoc.prems(1) have "lookup fs (butlast (ps @ [x])) = Some Dir"
      unfolding well_formed_def by blast
    then have "lookup fs ps = Some Dir" by simp
    with snoc.IH [OF snoc.prems(1) _ q] show ?thesis by simp
  qed
qed

lemma with_dirs_existing:
  "well_formed fs \<Longrightarrow> lookup fs p \<noteq> None \<Longrightarrow> with_dirs fs p = fs"
proof (rule ext)
  fix q
  assume wf: "well_formed fs" and ex: "lookup fs p \<noteq> None"
  show "with_dirs fs p q = fs q"
    using ancestors_exist [OF wf ex, of q] by (auto simp: with_dirs_def)
qed

lemma with_dirs_snoc:
  "lookup fs (ps @ [x]) = None \<Longrightarrow> (with_dirs fs ps)(ps @ [x] \<mapsto> Dir) = with_dirs fs (ps @ [x])"
  by (rule ext) (auto simp: with_dirs_def prefix_snoc lookup_def split: if_splits)

lemma mkdir_parents_with_dirs:
  "well_formed fs \<Longrightarrow> no_file_above fs p \<Longrightarrow> mkdir_parents fs p = Inr (with_dirs fs p)"
proof (induction p rule: rev_induct)
  case Nil
  then show ?case
    by (subst mkdir_parents.simps)
      (auto simp: os_mkdir_def lookup_def is_dir_def with_dirs_def well_formed_def)
next
  case (snoc x ps)
  have above: "no_file_above fs ps"
    using snoc.prems(2) by (auto simp: no_file_above_def prefix_snoc)
  note IH = snoc.IH [OF snoc.prems(1) above]
  have nf: "\<And>t. lookup fs (ps @ [x]) \<noteq> Some (File t)" "\<And>t. lookup fs ps \<noteq> Some (File t)"
    using snoc.prems(2) by (auto simp: no_file_above_def prefix_snoc)
  show ?case
  proof (cases "lookup fs (ps @ [x])")
    case (Some e)
    with nf(1) have "lookup fs (ps @ [x]) = Some Dir" by (cases e) auto
    then show ?thesis
      using with_dirs_existing [OF snoc.prems(1), of "ps @ [x]"]
      by (subst mkdir_parents.simps) (simp add: os_mkdir_def is_dir_def)
  next
    case None
    show ?thesis
    proof (cases "lookup fs ps")
      case (Some e)
      with nf(2) have dir: "lookup fs ps = Some Dir" by (cases e) auto
      have "with_dirs fs ps = fs"
        using with_dirs_existing [OF snoc.prems(1), of ps] dir by simp
      then have "fs(ps @ [x] \<mapsto> Dir) = with_dirs fs (ps @ [x])"
        using with_dirs_snoc [OF None] by simp
      then show ?thesis
        using None dir by (subst mkdir_parents.simps) (simp add: os_mkdir_def)
    next
      case parent: None
      have p1: "lookup (with_dirs fs ps) (ps @ [x]) = None"
        using None by (simp add: with_dirs_def lookup_def)
      have p2: "lookup (with_dirs fs ps) ps = Some Dir"
        using parent by (auto simp: with_dirs_def lookup_def split: if_splits)
      have "mkdir_exist_ok (with_dirs fs ps) (ps @ [x]) = Inr (with_dirs fs (ps @ [x]))"
        using p1 p2 with_dirs_snoc [OF None] by (simp add: mkdir_exist_ok_def os_mkdir_def)
      then show ?thesis
        using None parent IH by (subst mkdir_parents.simps) (simp add: os_mkdir_def)
    qed
  qed
qed

lemma with_dirs_is_dir:
  "no_file_above fs p \<Longrightarrow> prefix q p \<Longrightarrow> is_dir (with_dirs fs p) q"
  by (cases "lookup fs q"; cases "the (lookup fs q)")
     (auto simp: with_dirs_def is_dir_def lookup_def no_file_above_def split: if_splits)

lemma init_with_dirs:
  assumes "well_formed fs" and "no_file_above fs dir"
  shows "init dir filename uc dmin dmax fs =
           Inr (\<lparr> cache_dir = dir, cache_path = dir @ [filename], use_cache = uc,
                   min_delay = dmin, max_delay = dmax \<rparr>, with_dirs fs dir)"
  by (simp add: init_def mkdir_parents_with_dirs [OF assms])

text \<open>
  \<^bold>\<open>C10\<close>.  The constructor creates the cache directory and the directories above it,
  whatever \<open>use_cache\<close> is: in a well-formed file system where no file stands on the
  path, it returns, every directory of the path exists afterwards, and nothing else has
  changed.
\<close>

theorem init_creates_cache_dir:
  assumes "well_formed fs" and "no_file_above fs dir"
  shows "\<exists>self fs'. init dir filename uc dmin dmax fs = Inr (self, fs') \<and>
           use_cache self = uc \<and> cache_dir self = dir \<and>
           (\<forall>q. prefix q dir \<longrightarrow> is_dir fs' q) \<and>
           (\<forall>q. \<not> prefix q dir \<longrightarrow> fs' q = fs q)"
  using init_with_dirs [OF assms, of filename uc dmin dmax] with_dirs_is_dir [OF assms(2)]
  by (auto simp: with_dirs_def)

lemma no_files_well_formed: "well_formed no_files"
  by (simp add: well_formed_def no_files_def)

lemma no_files_above: "no_file_above no_files p"
  by (simp add: no_file_above_def no_files_def lookup_def)

theorem init_creates_cache_dir_witness:
  "\<exists>self fs'. init [ascii ''data'', ascii ''cache''] (ascii ''douban_top250.json'') False 0 0 no_files = Inr (self, fs') \<and>
     use_cache self = False \<and> is_dir fs' [ascii ''data''] \<and> is_dir fs' [ascii ''data'', ascii ''cache'']"
proof -
  from init_creates_cache_dir [OF no_files_well_formed no_files_above, of "[ascii ''data'', ascii ''cache'']" "ascii ''douban_top250.json''" False 0 0]
  obtain self fs' where *: "init [ascii ''data'', ascii ''cache''] (ascii ''douban_top250.json'') False 0 0 no_files = Inr (self, fs')"
    "use_cache self = False" "\<forall>q. prefix q [ascii ''data'', ascii ''cache''] \<longrightarrow> is_dir fs' q"
    by blast
  from *(3) have "is_dir fs' [ascii ''data'']" "is_dir fs' [ascii ''data'', ascii ''cache'']"
    by simp_all
  with * show ?thesis by blast
qed

section \<open>The cache store\<close>

lemma as_strs_JStr: "as_strs (map JStr xs) = Some xs"
  by (induction xs) simp_all

lemma asdict_keys: "map fst (asdict m) = field_names"
  by (simp add: asdict_def field_names_def)

lemma asdict_lookup:
  "map_of (asdict m) (ascii ''rank'') = Some (JInt (rank m))"
  "map_of (asdict m) (ascii ''title'') = Some (JStr (title m))"
  "map_of (asdict m) (ascii ''original_title'') = Some (json_opt_str (original_title m))"
  "map_of (asdict m) (ascii ''year'') = Some (json_opt_int (year m))"
  "map_of (asdict m) (ascii ''country'') = Some (json_opt_str (country m))"
  "map_of (asdict m) (ascii ''genres'') = Some (JArr (map JStr (genres m)))"
  "map_of (asdict m) (ascii ''rating'') = Some (JFloat (rating m))"
  "map_of (asdict m) (ascii ''votes'') = Some (JInt (votes m))"
  "map_of (asdict m) (ascii ''quote'') = Some (json_opt_str (quote m))"
  "map_of (asdict m) (ascii ''detail_url'') = Some (JStr (detail_url m))"
  "map_of (asdict m) (ascii ''poster_url'') = Some (json_opt_str (poster_url m))"
  "map_of (asdict m) (ascii ''is_playable'') = Some (JBool (is_playable m))"
  "map_of (asdict m) (ascii ''directors'') = Some (JArr (map JStr (directors m)))"
  "map_of (asdict m) (ascii ''actors'') = Some (JArr (map JStr (actors m)))"
  by (simp_all add: asdict_def ascii_def)

lemma as_opt_str_inverse: "as_opt_str (Some (json_opt_str v)) = Some v"
  by (cases v) (simp_all add: as_opt_str_def json_opt_str_def)

lemma as_opt_int_inverse: "as_opt_int (Some (json_opt_int v)) = Some v"
  by (cases v) (simp_all add: as_opt_int_def json_opt_int_def)

lemma typed_fields_asdict: "typed_fields (asdict m) = Some m"
  by (simp add: typed_fields_def asdict_lookup as_opt_str_inverse as_opt_int_inverse
      as_int_def as_str_def as_float_def as_bool_def as_str_list_def post_init_def as_strs_JStr)

lemma required_present: "\<not> list_ex (\<lambda>k. map_of (asdict m) k = None) required_fields"
  by (simp add: required_fields_def field_names_def asdict_lookup)

lemma movie_kwargs_asdict: "movie_kwargs (asdict m) = Inr m"
  using required_present [of m]
  by (simp add: movie_kwargs_def asdict_keys typed_fields_asdict list_ex_iff)

lemma movies_of_json_asdict:
  "movies_of_json (JArr (map (\<lambda>m. JObj (asdict m)) ms)) = Inr ms"
proof -
  have "collect (map (\<lambda>v. case v of JObj d \<Rightarrow> movie_kwargs d | _ \<Rightarrow> Inl TypeError)
          (map (\<lambda>m. JObj (asdict m)) ms)) = Inr ms"
    by (induction ms) (simp_all add: movie_kwargs_asdict)
  then show ?thesis by (simp add: movies_of_json_def)
qed

lemma json_read_opt:
  "json_read (json_opt_str v) = json_opt_str v" "json_read (json_opt_int n) = json_opt_int n"
  by (simp_all add: json_opt_str_def json_opt_int_def split: option.splits)

lemma json_read_strs: "map json_read (map JStr xs) = map JStr xs"
  by (induction xs) simp_all

lemma put_other: "k \<notin> fst ` set d \<Longrightarrow> put k v d = d @ [(k, v)]"
  by (induction d) auto

lemma py_dict_distinct_aux:
  "distinct (map fst (d @ kvs)) \<Longrightarrow> foldl (\<lambda>d (k, v). put k v d) d kvs = d @ kvs"
proof (induction kvs arbitrary: d)
  case Nil
  then show ?case by simp
next
  case (Cons kv kvs)
  obtain k v where kv: "kv = (k, v)" by (cases kv)
  from Cons.prems have "k \<notin> fst ` set d"
    by (auto simp: kv)
  then have "put k v d = d @ [(k, v)]"
    by (rule put_other)
  moreover from Cons.prems have "distinct (map fst ((d @ [(k, v)]) @ kvs))"
    by (simp add: kv)
  ultimately show ?case
    using Cons.IH [of "d @ [(k, v)]"] by (simp add: kv)
qed

lemma py_dict_distinct: "distinct (map fst kvs) \<Longrightarrow> py_dict kvs = kvs"
  using py_dict_distinct_aux [of "[]" kvs] by (simp add: py_dict_def)

lemma field_names_distinct: "distinct field_names"
  by (simp add: field_names_def ascii_def)

lemma map_fst_read: "map fst (map (\<lambda>(k, v). (k, f v)) kvs) = map fst kvs"
  by (induction kvs) auto

lemma asdict_read:
  "map (\<lambda>(k, v). (k, json_read v)) (asdict m) = asdict (stored m)"
  by (simp add: asdict_def stored_def json_read_opt json_read_strs)

lemma py_dict_asdict:
  "py_dict (map (\<lambda>(k, v). (k, json_read v)) (asdict m)) = asdict (stored m)"
proof -
  have "distinct (map fst (map (\<lambda>(k, v). (k, json_read v)) (asdict m)))"
    by (simp only: map_fst_read asdict_keys field_names_distinct)
  then show ?thesis
    by (simp only: py_dict_distinct asdict_read)
qed

lemma json_read_records:
  "json_read (JArr (map (\<lambda>m. JObj (asdict m)) ms)) =
     JArr (map (\<lambda>m. JObj (asdict (stored m))) ms)"
  by (simp add: py_dict_asdict)

lemma json_fits_strs: "list_all json_fits (map JStr xs)"
  by (induction xs) simp_all

lemma json_fits_asdict: "list_all (\<lambda>(k, v). json_fits v) (asdict m) = fits_limit m"
  by (simp add: asdict_def fits_limit_def json_opt_str_def json_opt_int_def json_fits_strs
      split: option.splits)

lemma json_fits_records:
  "json_fits (JArr (map (\<lambda>m. JObj (asdict m)) ms)) = list_all fits_limit ms"
  by (induction ms) (simp_all add: json_fits_asdict)

lemma json_plain_strs: "list_all json_plain (map JStr xs) = list_all plain xs"
  by (induction xs) simp_all

lemma field_names_plain:
  "plain (ascii ''rank'')" "plain (ascii ''title'')" "plain (ascii ''original_title'')"
  "plain (ascii ''year'')" "plain (ascii ''country'')" "plain (ascii ''genres'')"
  "plain (ascii ''rating'')" "plain (ascii ''votes'')" "plain (ascii ''quote'')"
  "plain (ascii ''detail_url'')" "plain (ascii ''poster_url'')" "plain (ascii ''is_playable'')"
  "plain (ascii ''directors'')" "plain (ascii ''actors'')"
  by (simp_all add: plain_def ascii_def surrogate_def)

lemma json_plain_asdict:
  "list_all (\<lambda>(k, v). plain k \<and> json_plain v) (asdict m) = plain_text m"
  by (simp add: asdict_def plain_text_def plain_opt_def json_opt_str_def json_opt_int_def
      json_plain_strs field_names_plain split: option.splits)

lemma json_plain_records:
  "json_plain (JArr (map (\<lambda>m. JObj (asdict m)) ms)) = list_all plain_text ms"
  by (induction ms) (simp_all add: json_plain_asdict)

lemma json_nan_not_nan: "float_is_nan json_nan"
  by (simp add: json_nan_def float_is_nan_def float_magnitude_def float_sign_def)

lemma stored_facts:
  "fits_limit (stored m) = fits_limit m" "plain_text (stored m) = plain_text m"
  by (simp_all add: stored_def fits_limit_def plain_text_def)

lemma stored_records:
  "list_all fits_limit (map stored ms) = list_all fits_limit ms"
  "list_all plain_text (map stored ms) = list_all plain_text ms"
  by (induction ms) (simp_all add: stored_facts)

lemma stored_number: "list_all rating_not_nan ms \<Longrightarrow> map stored ms = ms"
  by (induction ms) (simp_all add: stored_def rating_not_nan_def)

lemma records_stored:
  "map (\<lambda>m. JObj (asdict (stored m))) ms = map (\<lambda>m. JObj (asdict m)) (map stored ms)"
  by simp

lemma stored_document:
  "json_fits (JArr (map (\<lambda>m. JObj (asdict (stored m))) ms)) = list_all fits_limit ms"
  "json_plain (JArr (map (\<lambda>m. JObj (asdict (stored m))) ms)) = list_all plain_text ms"
  "movies_of_json (JArr (map (\<lambda>m. JObj (asdict (stored m))) ms)) = Inr (map stored ms)"
  by (simp_all only: records_stored json_fits_records json_plain_records stored_records
      movies_of_json_asdict)

lemma json_dumps_records:
  "json_dumps (JArr (map (\<lambda>m. JObj (asdict m)) ms)) =
     (if list_all fits_limit ms
      then Inr (JArr (map (\<lambda>m. JObj (asdict (stored m))) ms))
      else Inl exceeds_limit)"
  by (simp only: json_dumps_def json_fits_records json_read_records)

lemma cache_document_stored:
  "cache_document ms = Document (JArr (map (\<lambda>m. JObj (asdict (stored m))) ms))"
  by (simp only: cache_document_def json_read_records)

lemma stored_idem: "stored (stored m) = stored m"
  by (simp add: stored_def)

lemma json_loads_written:
  "json_loads (cache_document ms) =
     (if list_all fits_limit ms
      then Inr (JArr (map (\<lambda>m. JObj (asdict (stored m))) ms))
      else Inl exceeds_limit)"
proof -
  have "json_read (JArr (map (\<lambda>m. JObj (asdict (stored m))) ms)) =
          JArr (map (\<lambda>m. JObj (asdict (stored m))) ms)"
    by (simp add: py_dict_asdict stored_idem)
  then show ?thesis
    by (simp add: json_loads_def cache_document_stored stored_document(1) del: json_read.simps json_fits.simps)
qed

lemma open_w_ok:
  "is_dir fs (butlast p) \<Longrightarrow> \<not> is_dir fs p \<Longrightarrow> open_w fs p = Inr (fs(p \<mapsto> File Malformed))"
  by (simp add: open_w_def is_dir_def)

lemma load_written:
  assumes "lookup fs (cache_path self) = Some (File (cache_document ms))"
  shows "load_from_cache self fs =
           (if list_all fits_limit ms then Inr (map stored ms) else Inl exceeds_limit)"
proof -
  have "read_text fs (cache_path self) = Inr (cache_document ms)"
    using assms by (simp add: read_text_def cache_document_def)
  then show ?thesis
    by (simp add: load_from_cache_def json_loads_written stored_document(3)
        del: json_read.simps json_fits.simps)
qed

lemma write_text_ok:
  assumes "is_dir fs (butlast p)" and "\<not> is_dir fs p"
  shows "write_text fs p d =
           (if json_plain d then (None, fs(p \<mapsto> File (Document d)))
            else (Some UnicodeEncodeError, fs(p \<mapsto> File Malformed)))"
    and "write_text_states fs p d =
           (if json_plain d
            then [fs, fs(p \<mapsto> File Malformed), fs(p \<mapsto> File (Document d))]
            else [fs, fs(p \<mapsto> File Malformed)])"
  by (simp_all add: write_text_def write_text_states_def open_w_ok [OF assms] write_close_def)

lemma write_cache_unfold:
  "write_cache self ms fs =
     (if list_all fits_limit ms
      then write_text fs (cache_path self) (JArr (map (\<lambda>m. JObj (asdict (stored m))) ms))
      else (Some exceeds_limit, fs))"
  "write_cache_states self ms fs =
     (if list_all fits_limit ms
      then write_text_states fs (cache_path self)
             (JArr (map (\<lambda>m. JObj (asdict (stored m))) ms))
      else [fs])"
  by (simp_all add: write_cache_def write_cache_states_def json_dumps_records
      del: json_read.simps json_fits.simps)

lemma write_cache_ok:
  assumes "is_dir fs (butlast (cache_path self))" and "\<not> is_dir fs (cache_path self)"
    and "list_all fits_limit ms" and "list_all plain_text ms"
  shows "write_cache self ms fs =
           (None, fs(cache_path self \<mapsto> File (cache_document ms)))"
    and "write_cache_states self ms fs =
           [fs, fs(cache_path self \<mapsto> File Malformed),
            fs(cache_path self \<mapsto> File (cache_document ms))]"
  using assms(3,4)
  by (simp_all add: write_cache_unfold write_text_ok [OF assms(1,2)] stored_document(2)
      cache_document_stored del: json_plain.simps)

lemma write_cache_not_plain:
  assumes "is_dir fs (butlast (cache_path self))" and "\<not> is_dir fs (cache_path self)"
    and "list_all fits_limit ms" and "\<not> list_all plain_text ms"
  shows "write_cache self ms fs =
           (Some UnicodeEncodeError, fs(cache_path self \<mapsto> File Malformed))"
    and "write_cache_states self ms fs = [fs, fs(cache_path self \<mapsto> File Malformed)]"
  using assms(3,4)
  by (simp_all add: write_cache_unfold write_text_ok [OF assms(1,2)] stored_document(2)
      del: json_plain.simps)



lemma cache_path_not_root: "\<not> is_dir fs p \<Longrightarrow> p \<noteq> []"
  by (auto simp: is_dir_def lookup_def)

lemma cache_round_trip_aux:
  assumes "is_dir fs (butlast (cache_path self))" and "\<not> is_dir fs (cache_path self)"
    and "list_all fits_limit ms" and "list_all plain_text ms"
  shows "write_cache self ms fs = (None, fs(cache_path self \<mapsto> File (cache_document ms)))"
    and "load_from_cache self (fs(cache_path self \<mapsto> File (cache_document ms))) =
           Inr (map stored ms)"
proof -
  show "write_cache self ms fs = (None, fs(cache_path self \<mapsto> File (cache_document ms)))"
    by (rule write_cache_ok(1) [OF assms])
  have "lookup (fs(cache_path self \<mapsto> File (cache_document ms))) (cache_path self) =
          Some (File (cache_document ms))"
    by (simp add: lookup_def cache_path_not_root [OF assms(2)])
  from load_written [OF this] assms(3)
  show "load_from_cache self (fs(cache_path self \<mapsto> File (cache_document ms))) =
          Inr (map stored ms)"
    by simp
qed

lemma local_cache_writable:
  "is_dir fs (butlast (cache_path local_scraper))"
  "\<not> is_dir no_files (cache_path local_scraper)"
  "\<not> is_dir cached_files (cache_path local_scraper)"
  by (simp_all add: local_scraper_def is_dir_def lookup_def no_files_def cached_files_def)

lemma num_digits_bound: "0 < k \<Longrightarrow> n < 10 ^ k \<Longrightarrow> num_digits n \<le> k"
proof (induction k arbitrary: n)
  case 0
  then show ?case by simp
next
  case (Suc k)
  show ?case
  proof (cases "n < 10")
    case True
    then show ?thesis by (simp add: num_digits.simps [of n])
  next
    case False
    with Suc.prems have k: "0 < k"
      by (cases k) auto
    from Suc.prems have "n div 10 < 10 ^ k"
      by (simp add: less_mult_imp_div_less mult.commute)
    from Suc.IH [OF k this] False show ?thesis
      by (simp add: num_digits.simps [of n])
  qed
qed

lemma int_fits_small: "\<bar>n\<bar> < 10000000000 \<Longrightarrow> int_fits n"
proof -
  assume "\<bar>n\<bar> < 10000000000"
  then have "nat \<bar>n\<bar> < 10 ^ 10" by simp
  then have "num_digits (nat \<bar>n\<bar>) \<le> 10"
    by (intro num_digits_bound) simp_all
  then show "int_fits n"
    by (simp add: int_fits_def int_max_str_digits_def)
qed

lemma sample_movies_storable:
  "fits_limit full_movie" "fits_limit bare_movie" "plain_text full_movie" "plain_text bare_movie"
  "rating_not_nan full_movie" "rating_not_nan bare_movie"
  "fits_limit nan_movie" "plain_text nan_movie"
  "fits_limit surrogate_movie" "\<not> plain_text surrogate_movie"
  by (simp_all add: fits_limit_def plain_text_def plain_opt_def rating_not_nan_def full_movie_def
      bare_movie_def nan_movie_def surrogate_movie_def int_fits_small plain_def surrogate_def
      ascii_def float_is_nan_def float_magnitude_def float_sign_def)



text \<open>
  The claim as stated has every list of records come back as it was.  A record whose
  rating is the NaN of \<^verbatim>\<open>float("-nan")\<close>, which the extractor makes of a rating text
  \<^verbatim>\<open>-nan\<close>, comes back with another rating; and on a record with a lone surrogate in its
  title the write raises after it has emptied the cache file, which then does not read.
\<close>

theorem nan_rating_counterexample:
  "fst (write_cache local_scraper [nan_movie] no_files) = None \<and>
   load_from_cache local_scraper (snd (write_cache local_scraper [nan_movie] no_files)) =
     Inr [bare_movie\<lparr>rating := 0x7FF8000000000000\<rparr>] \<and>
   [bare_movie\<lparr>rating := 0x7FF8000000000000\<rparr>] \<noteq> [nan_movie] \<and>
   fst (write_cache local_scraper [surrogate_movie] cached_files) = Some UnicodeEncodeError \<and>
   load_from_cache local_scraper (snd (write_cache local_scraper [surrogate_movie] cached_files)) =
     Inl JSONDecodeError"
proof -
  have a: "list_all fits_limit [nan_movie]" "list_all plain_text [nan_movie]"
    "list_all fits_limit [surrogate_movie]" "\<not> list_all plain_text [surrogate_movie]"
    by (simp_all add: sample_movies_storable)
  have "stored nan_movie = bare_movie\<lparr>rating := 0x7FF8000000000000\<rparr>"
    by (simp add: stored_def nan_movie_def json_nan_def float_is_nan_def float_magnitude_def
        float_sign_def)
  moreover have "load_from_cache local_scraper
      (cached_files(cache_path local_scraper \<mapsto> File Malformed)) = Inl JSONDecodeError"
    by (simp add: load_from_cache_def read_text_def lookup_def json_loads_def local_scraper_def)
  moreover have "(0x7FF8000000000000 :: pyfloat) \<noteq> 0xFFF8000000000000"
    by simp
  then have "bare_movie\<lparr>rating := 0x7FF8000000000000\<rparr> \<noteq> nan_movie"
    by (auto simp: nan_movie_def dest: arg_cong [of _ _ rating])
  ultimately show ?thesis
    by (simp add: cache_round_trip_aux [OF local_cache_writable(1,2) a(1,2)]
        write_cache_not_plain(1) [OF local_cache_writable(1,3) a(3,4)])
qed

text \<open>
  \<^bold>\<open>C3\<close>.  With caching enabled, \<open>force_refresh\<close> false and the cache path existing, a fetch
  returns what the cache holds and leaves the world as it was: no request is made.  So a
  second such fetch returns the same as the first, again without a request.  When the
  cache holds what was written for a list of records, the result is that list as the
  cache gives it back.
\<close>

theorem fetch_from_cache:
  assumes "use_cache self" and "path_exists (files w) (cache_path self)"
  shows "fetch_movies self float_of server clk False w = (load_from_cache self (files w), w) \<and>
         fetch_movies self float_of server clk False
             (snd (fetch_movies self float_of server clk False w)) =
           (load_from_cache self (files w), w) \<and>
         (lookup (files w) (cache_path self) = Some (File (cache_document movies)) \<and>
          list_all fits_limit movies \<longrightarrow>
            fst (fetch_movies self float_of server clk False w) = Inr (map stored movies))"
  using assms by (simp add: fetch_movies_def load_written)

theorem fetch_from_cache_witness:
  "fetch_movies local_scraper no_float blocked_third steady_clock False
     \<lparr>files = cached_files, trace = []\<rparr> =
     (Inr [full_movie, bare_movie], \<lparr>files = cached_files, trace = []\<rparr>)"
proof -
  have a: "use_cache local_scraper"
    by (simp add: local_scraper_def)
  have c: "lookup (files \<lparr>files = cached_files, trace = []\<rparr>) (cache_path local_scraper) =
             Some (File (cache_document [full_movie, bare_movie]))"
    by (simp add: local_scraper_def cached_files_def lookup_def)
  then have b: "path_exists (files \<lparr>files = cached_files, trace = []\<rparr>) (cache_path local_scraper)"
    by (simp add: path_exists_def)
  have d: "map stored [full_movie, bare_movie] = [full_movie, bare_movie]"
    by (rule stored_number) (simp add: sample_movies_storable)
  show ?thesis
    using fetch_from_cache [OF a b, of no_float blocked_third steady_clock "[full_movie, bare_movie]"] c d
    by (simp add: load_written sample_movies_storable)
qed




section \<open>Digits and integers\<close>

lemma decimal_ascii_digit: "48 \<le> c \<Longrightarrow> c \<le> 57 \<Longrightarrow> decimal c = Some (c - 48)"
  by (simp add: decimal_def decimal_zeros_def)

lemma decimal_below: "c < 48 \<Longrightarrow> decimal c = None"
  by (simp add: decimal_def decimal_zeros_def)

lemma decimal_latin: "58 \<le> c \<Longrightarrow> c < 0x660 \<Longrightarrow> decimal c = None"
  by (simp add: decimal_def decimal_zeros_def)

lemma decimal_cjk: "0x1C5A \<le> c \<Longrightarrow> c < 0xA620 \<Longrightarrow> decimal c = None"
  by (simp add: decimal_def decimal_zeros_def)


lemma not_isdigit_below: "c < 48 \<Longrightarrow> \<not> isdigit c"
  by (simp add: isdigit_def is_decimal_def decimal_below other_digits_def)

lemma not_isdigit_latin: "58 \<le> c \<Longrightarrow> c < 0xB2 \<Longrightarrow> \<not> isdigit c"
  by (simp add: isdigit_def is_decimal_def decimal_latin other_digits_def)

lemma not_isdigit_punct: "0x1C5A \<le> c \<Longrightarrow> c < 0x2070 \<Longrightarrow> \<not> isdigit c"
  by (simp add: isdigit_def is_decimal_def decimal_cjk other_digits_def)

lemma not_isdigit_cjk: "0x2793 \<le> c \<Longrightarrow> c < 0xA620 \<Longrightarrow> \<not> isdigit c"
  by (simp add: isdigit_def is_decimal_def decimal_cjk other_digits_def)

lemma not_isdigit_ogham: "\<not> isdigit 0x1680"
  by (simp add: isdigit_def is_decimal_def decimal_def decimal_zeros_def other_digits_def)

lemma decimal_less_10: "decimal c = Some d \<Longrightarrow> d < 10"
  by (auto simp: decimal_def find_Some_iff split: option.splits)

lemma isdigit_not_space: "isdigit c \<Longrightarrow> \<not> isspace c"
  using not_isdigit_below [of c] not_isdigit_latin [of c] not_isdigit_punct [of c]
    not_isdigit_cjk [of c] not_isdigit_ogham
  by (auto simp: isspace_def)

lemma isdigit_not_sign: "isdigit c \<Longrightarrow> c \<noteq> 43 \<and> c \<noteq> 45 \<and> c \<noteq> 95"
  using not_isdigit_below [of c] not_isdigit_latin [of c] by auto

lemma is_decimal_isdigit: "is_decimal c \<Longrightarrow> isdigit c"
  by (simp add: isdigit_def)

lemma dropWhile_none: "\<forall>c \<in> set s. \<not> P c \<Longrightarrow> dropWhile P s = s"
  by (cases s) auto

lemma py_strip_no_space: "\<forall>c \<in> set s. \<not> isspace c \<Longrightarrow> py_strip s = s"
  by (simp add: py_strip_def dropWhile_none)

lemma is_decimal_facts:
  "is_decimal c \<Longrightarrow> \<not> isspace c \<and> c \<noteq> 43 \<and> c \<noteq> 45 \<and> c \<noteq> 95"
  using isdigit_not_space [of c] isdigit_not_sign [of c]
  by (auto simp: isdigit_def)

lemma int_digits_decimals:
  "s \<noteq> [] \<Longrightarrow> list_all is_decimal s \<Longrightarrow> int_digits s = Some (map digit_value s)"
proof (induction s rule: int_digits.induct)
  case 1
  then show ?case by simp
next
  case (2 c)
  then show ?case by (auto simp: is_decimal_def digit_value_def)
next
  case (3 c u cs)
  from "3.prems" obtain d where d: "decimal c = Some d"
    by (auto simp: is_decimal_def)
  from "3.prems" have u: "u \<noteq> 95" "list_all is_decimal (u # cs)"
    using is_decimal_facts [of u] by auto
  from "3.IH" [OF d] u have "int_digits (u # cs) = Some (map digit_value (u # cs))"
    by simp
  with d u show ?case by (simp add: digit_value_def)
qed

lemma py_int_decimals:
  assumes "s \<noteq> []" and "list_all is_decimal s"
  shows "py_int s =
           (if int_max_str_digits < length s then Inl exceeds_limit
            else Inr (int (decimal_value s)))"
proof -
  from assms(2) have all: "\<forall>c \<in> set s. is_decimal c"
    by (simp add: list_all_iff)
  have no_space: "\<forall>c \<in> set s. \<not> int_space c"
    using all is_decimal_facts by (auto simp: int_space_def)
  have strip: "rev (dropWhile int_space (rev (dropWhile int_space s))) = s"
    using no_space by (simp add: dropWhile_none)
  from assms(1) all have "is_decimal (hd s)" by simp
  then have sign: "hd s \<noteq> 43" "hd s \<noteq> 45"
    using is_decimal_facts [of "hd s"] by auto
  have run: "takeWhile (\<lambda>c. is_decimal c \<or> c = 95) s = s"
    using all by (auto simp: takeWhile_eq_all_conv)
  have rest: "dropWhile (\<lambda>c. is_decimal c \<or> c = 95) s = []"
    using all by auto
  show ?thesis
    by (simp add: py_int_def strip sign run rest int_digits_decimals [OF assms] decimal_value_def)
qed

lemma strip_keeps:
  assumes "c \<in> set s" and "\<not> int_space c"
  shows "c \<in> set (rev (dropWhile int_space (rev (dropWhile int_space s))))"
proof -
  have a: "c \<in> set (dropWhile int_space xs)" if "c \<in> set xs" for xs
    using that assms(2) by (induction xs) auto
  show ?thesis
    using a [of "rev (dropWhile int_space s)"] a [of s] assms(1)
    by simp
qed

lemma py_int_rejects:
  assumes "c \<in> set s" and "\<not> literal_char c"
  shows "py_int s = Inl invalid_literal \<or> py_int s = Inl exceeds_limit"
proof -
  define t where "t = rev (dropWhile int_space (rev (dropWhile int_space s)))"
  define body where "body = (if t \<noteq> [] \<and> (hd t = 43 \<or> hd t = 45) then tl t else t)"
  define run where "run = takeWhile (\<lambda>c. is_decimal c \<or> c = 95) body"
  define rest where "rest = dropWhile (\<lambda>c. is_decimal c \<or> c = 95) body"
  from assms have c: "\<not> int_space c" "c \<noteq> 43" "c \<noteq> 45" "\<not> (is_decimal c \<or> c = 95)"
    by (auto simp: literal_char_def int_space_def)
  have "c \<in> set t"
    unfolding t_def using assms(1) c(1) by (rule strip_keeps)
  then have "c \<in> set body"
    using c(2,3) by (cases t) (auto simp: body_def)
  then have rest: "rest \<noteq> []"
    using c(4) by (auto simp: rest_def dropWhile_eq_Nil_conv)
  have "py_int s =
          (case int_digits run of
             None \<Rightarrow> Inl invalid_literal
           | Some ds \<Rightarrow>
               if int_max_str_digits < length ds then Inl exceeds_limit
               else if rest \<noteq> [] then Inl invalid_literal
               else Inr ((if t \<noteq> [] \<and> hd t = 45 then - 1 else 1) * int (horner ds)))"
    by (simp only: py_int_def Let_def t_def body_def run_def rest_def)
  with rest show ?thesis
    by (simp split: option.splits)
qed




section \<open>The field extractor\<close>

lemma stripped_nonempty_filter:
  "stripped_nonempty xs = filter (\<lambda>x. x \<noteq> []) (map py_strip xs)"
  by (simp add: stripped_nonempty_def filter_map comp_def)

lemma metadata_parts_segments:
  "metadata_parts line = filter (\<lambda>x. x \<noteq> []) (trimmed_segments line)"
  by (simp add: metadata_parts_def trimmed_segments_def stripped_nonempty_filter)

lemma split_from_single_hd:
  "hd (split_from [x] acc s) = acc @ takeWhile (\<lambda>c. c \<noteq> x) s"
  by (induction s arbitrary: acc) simp_all

lemma py_split_single_hd: "hd (py_split [x] s) = takeWhile (\<lambda>c. c \<noteq> x) s"
  by (simp add: py_split_def split_from_single_hd)

lemma split_from_nonempty: "split_from sep acc s \<noteq> []"
  by (induction sep acc s rule: split_from.induct) simp_all

lemma py_contains_single: "py_contains [x] s \<longleftrightarrow> x \<in> set s"
  by (induction s) auto

lemma last_dropWhile: "dropWhile P xs \<noteq> [] \<Longrightarrow> last (dropWhile P xs) = last xs"
  by (induction xs) (auto split: if_splits)

lemma py_strip_ends:
  assumes "py_strip s \<noteq> []"
  shows "\<not> isspace (hd (py_strip s))" and "\<not> isspace (last (py_strip s))"
proof -
  let ?u = "dropWhile isspace s"
  let ?v = "dropWhile isspace (rev ?u)"
  from assms have v: "?v \<noteq> []" by (simp add: py_strip_def)
  then have u: "?u \<noteq> []" by (cases ?u) auto
  have "hd (py_strip s) = last ?v"
    using v by (simp add: py_strip_def hd_rev)
  also have "\<dots> = last (rev ?u)" using v by (rule last_dropWhile)
  also have "\<dots> = hd ?u" using u by (simp add: last_rev)
  finally show "\<not> isspace (hd (py_strip s))"
    using hd_dropWhile [OF u] by simp
  have "last (py_strip s) = hd ?v"
    using v by (simp add: py_strip_def last_rev)
  then show "\<not> isspace (last (py_strip s))"
    using hd_dropWhile [OF v] by simp
qed

lemma py_strip_fixed:
  assumes "s = [] \<or> (\<not> isspace (hd s) \<and> \<not> isspace (last s))"
  shows "py_strip s = s"
proof (cases s)
  case Nil
  then show ?thesis by (simp add: py_strip_def)
next
  case (Cons x xs)
  with assms have a: "\<not> isspace x" and b: "\<not> isspace (last (x # xs))" by auto
  have "rev (x # xs) \<noteq> []" by simp
  moreover have "hd (rev (x # xs)) = last (x # xs)" by (simp only: hd_rev)
  ultimately have "dropWhile isspace (rev (x # xs)) = rev (x # xs)"
    using b by (cases "rev (x # xs)") auto
  then show ?thesis
    using a Cons by (simp add: py_strip_def)
qed

lemma py_strip_idem: "py_strip (py_strip s) = py_strip s"
  using py_strip_ends [of s] by (intro py_strip_fixed) blast

lemma py_lstrip_slash: "py_lstrip (ascii ''/'') s = dropWhile (\<lambda>c. c = 47) s"
  by (simp add: py_lstrip_def ascii_def)

lemma first_alternate:
  "(if py_contains (ascii ''/'') (py_strip s)
    then py_strip (hd (py_split (ascii ''/'') (py_strip s)))
    else py_strip s) = py_strip (takeWhile (\<lambda>c. c \<noteq> 47) (py_strip s))"
proof (cases "47 \<in> set (py_strip s)")
  case True
  then show ?thesis
    by (simp add: ascii_def py_contains_single py_split_single_hd)
next
  case False
  then have tw: "takeWhile (\<lambda>c. c \<noteq> 47) (py_strip s) = py_strip s"
    by (auto simp: takeWhile_eq_all_conv)
  from False show ?thesis
    by (simp only: tw py_strip_idem) (simp add: ascii_def py_contains_single)
qed

lemma parse_movie_fields:
  assumes "parse_movie float_of li = Inr m"
  shows "parse_rank li = Inr (rank m)" and "parse_votes li = Inr (votes m)"
    and "title m = fst (parse_titles li)" and "original_title m = snd (parse_titles li)"
    and "year m = fst (parse_metadata li)" and "country m = fst (snd (parse_metadata li))"
    and "genres m = snd (snd (parse_metadata li))"
  using assms by (auto simp: parse_movie_def split: sum.splits)


lemma original_title_fallback:
  assumes "length (find_all_class (ascii ''span'') (ascii ''title'') li) \<le> 1"
  shows "snd (parse_titles li) =
           (case find_class (ascii ''span'') (ascii ''other'') li of
              None \<Rightarrow> None
            | Some other_title_tag \<Rightarrow>
                (let other_text = py_strip (dropWhile (\<lambda>c. c = 47) (get_text other_title_tag))
                 in if other_text = [] then None
                    else Some (py_strip (takeWhile (\<lambda>c. c \<noteq> 47) other_text))))"
proof -
  from assms have second:
    "(case find_all_class (ascii ''span'') (ascii ''title'') li of
        t # t2 # ts \<Rightarrow>
          (let second_title = py_strip (py_lstrip (ascii ''/'') (get_text t2))
           in if second_title \<noteq> [] then Some second_title else None)
      | _ \<Rightarrow> None) = None"
    by (auto split: list.splits)
  show ?thesis
    by (simp add: parse_titles_def Let_def second py_lstrip_slash first_alternate
        split: option.splits)
qed

subsection \<open>The sample items\<close>

lemmas markup_eval = ascii_def find_tag_def find_all_def find_class_def find_all_class_def
  get_text_def get_text_sep_def stripped_strings_def py_strip_def isspace_def

lemmas extractor_eval = parse_movie_def parse_rank_def parse_titles_def parse_detail_url_def
  parse_poster_url_def parse_is_playable_def parse_credits_def parse_metadata_def
  parse_rating_def parse_votes_def parse_quote_def marked_span_text_def star_span_text_def
  info_lines_def metadata_parts_def py_split_def py_replace_def stripped_nonempty_def
  py_lstrip_def director_marker_def starring_marker_def people_rated_def rated_def
  safe_int_def no_float_def Let_def

lemma is_decimal_ascii: "48 \<le> c \<Longrightarrow> c \<le> 57 \<Longrightarrow> is_decimal c"
  by (simp add: is_decimal_def decimal_ascii_digit)

lemma digit_value_ascii: "48 \<le> c \<Longrightarrow> c \<le> 57 \<Longrightarrow> digit_value c = c - 48"
  by (simp add: digit_value_def decimal_ascii_digit)

lemmas int_eval = py_int_decimals is_decimal_ascii digit_value_ascii int_max_str_digits_def
  decimal_value_def horner_def


lemma unranked_item_parsed:
  "parse_movie no_float unranked_item = Inr (bare_movie\<lparr>title := [0x8096, 0x7533, 0x514B]\<rparr>)"
  by (simp add: unranked_item_def bare_movie_def markup_eval extractor_eval)



lemma metadata_item_parsed:
  "parse_movie no_float metadata_item =
     Inr (bare_movie\<lparr>year := Some 1994, country := Some [0x7F8E, 0x56FD],
            genres := [[0x5267, 0x60C5, 32, 0x72AF, 0x7F6A]],
            directors := [ascii ''Frank Darabont1994'', [0x7F8E, 0x56FD],
                          [0x5267, 0x60C5, 32, 0x72AF, 0x7F6A]]\<rparr>)"
  by (simp add: metadata_item_def bare_movie_def markup_eval extractor_eval int_eval)

lemma gap_item_parsed:
  "parse_movie no_float gap_item =
     Inr (bare_movie\<lparr>year := Some 1994, country := Some [0x5267, 0x60C5]\<rparr>)"
  by (simp add: gap_item_def gap_line_def bare_movie_def markup_eval extractor_eval int_eval)

lemma gap_line_segments:
  "trimmed_segments gap_line = [ascii ''1994'', [], [0x5267, 0x60C5]]"
  by (simp add: trimmed_segments_def gap_line_def py_split_def py_replace_def markup_eval)



lemma alias_item_parsed:
  "parse_movie no_float alias_item =
     Inr (bare_movie\<lparr>title := [0x8096, 0x7533, 0x514B],
            original_title := Some [0x6708, 0x9ED1, 0x9AD8, 0x98DE, 40, 0x6E2F, 41]\<rparr>)"
  by (simp add: alias_item_def bare_movie_def markup_eval extractor_eval)

subsection \<open>What the extractor reads\<close>


lemma safe_int_decimals:
  "s \<noteq> [] \<Longrightarrow> list_all is_decimal s \<Longrightarrow> length s \<le> int_max_str_digits \<Longrightarrow>
   safe_int (Some s) = Some (int (decimal_value s))"
  by (simp add: safe_int_def py_int_decimals)

lemma safe_int_rejects: "\<not> list_all literal_char s \<Longrightarrow> safe_int (Some s) = None"
proof -
  assume "\<not> list_all literal_char s"
  then obtain c where "c \<in> set s" "\<not> literal_char c"
    by (auto simp: list_all_iff)
  then have "py_int s = Inl invalid_literal \<or> py_int s = Inl exceeds_limit"
    by (rule py_int_rejects)
  then show ?thesis
    by (auto simp: safe_int_def)
qed

lemma parse_metadata_segments:
  "parse_metadata li =
     (case find_tag (ascii ''p'') li of
        None \<Rightarrow> (None, None, [])
      | Some info_block \<Rightarrow>
          if info_lines info_block = [] then (None, None, [])
          else
            (let parts = filter (\<lambda>x. x \<noteq> []) (trimmed_segments (last (info_lines info_block)))
             in (if parts = [] then None else safe_int (Some (hd parts)),
                 if 1 < length parts then Some (parts ! 1) else None,
                 drop 2 parts)))"
  by (simp add: parse_metadata_def Let_def metadata_parts_segments split: option.splits)






text \<open>
  \<^bold>\<open>C7\<close>, amended.  The extractor takes the last non-empty line of the info block, makes
  its non-breaking spaces plain, splits it on the slash into trimmed segments and drops
  the empty ones.  Of the segments that remain, the first gives the year, which is the
  integer \<^verbatim>\<open>int()\<close> reads from it (the number a segment of decimal digits writes) and absent
  when \<^verbatim>\<open>int()\<close> does not read it (as with any character that is no digit, sign,
  underscore or space); the second is the country; the third and later ones are the
  genres, verbatim.  Without an info block, a non-empty line or a non-empty segment,
  year and country are absent and there is no genre.
\<close>

theorem metadata_from_last_line:
  "(parse_movie float_of li = Inr m \<longrightarrow>
      (year m, country m, genres m) =
        (case find_tag (ascii ''p'') li of
           None \<Rightarrow> (None, None, [])
         | Some info_block \<Rightarrow>
             if info_lines info_block = [] then (None, None, [])
             else
               (let parts = filter (\<lambda>x. x \<noteq> [])
                              (trimmed_segments (last (info_lines info_block)))
                in (if parts = [] then None else safe_int (Some (hd parts)),
                    if 1 < length parts then Some (parts ! 1) else None,
                    drop 2 parts)))) \<and>
   info_lines info_block' =
     filter (\<lambda>x. x \<noteq> []) (map py_strip (py_split [10] (get_text_sep [10] info_block'))) \<and>
   (s \<noteq> [] \<and> list_all is_decimal s \<and> length s \<le> int_max_str_digits \<longrightarrow>
      safe_int (Some s) = Some (int (decimal_value s))) \<and>
   (\<not> list_all literal_char s' \<longrightarrow> safe_int (Some s') = None)"
proof -
  have "parse_movie float_of li = Inr m \<Longrightarrow>
        (year m, country m, genres m) = parse_metadata li"
    by (simp add: parse_movie_fields(5,6,7))
  then show ?thesis
    using safe_int_decimals [of s] safe_int_rejects [of s']
    by (simp add: parse_metadata_segments info_lines_def stripped_nonempty_filter)
qed

theorem metadata_from_last_line_witness:
  "parse_movie no_float metadata_item =
     Inr (bare_movie\<lparr>year := Some 1994, country := Some [0x7F8E, 0x56FD],
            genres := [[0x5267, 0x60C5, 32, 0x72AF, 0x7F6A]],
            directors := [ascii ''Frank Darabont1994'', [0x7F8E, 0x56FD],
                          [0x5267, 0x60C5, 32, 0x72AF, 0x7F6A]]\<rparr>) \<and>
   trimmed_segments
     (ascii ''1994'' @ [0xA0, 47, 0xA0, 0x7F8E, 0x56FD, 0xA0, 47, 0xA0,
        0x5267, 0x60C5, 32, 0x72AF, 0x7F6A]) =
     [ascii ''1994'', [0x7F8E, 0x56FD], [0x5267, 0x60C5, 32, 0x72AF, 0x7F6A]] \<and>
   (case find_tag (ascii ''p'') metadata_item of
      None \<Rightarrow> (None, None, [])
    | Some info_block \<Rightarrow>
        if info_lines info_block = [] then (None, None, [])
        else
          (let parts = filter (\<lambda>x. x \<noteq> [])
                         (trimmed_segments (last (info_lines info_block)))
           in (if parts = [] then None else safe_int (Some (hd parts)),
               if 1 < length parts then Some (parts ! 1) else None,
               drop 2 parts))) =
     (Some 1994, Some [0x7F8E, 0x56FD], [[0x5267, 0x60C5, 32, 0x72AF, 0x7F6A]]) \<and>
   safe_int (Some (ascii ''1994'')) = Some 1994 \<and>
   safe_int (Some (ascii ''1994a'')) = None"
proof -
  have "trimmed_segments
     (ascii ''1994'' @ [0xA0, 47, 0xA0, 0x7F8E, 0x56FD, 0xA0, 47, 0xA0,
        0x5267, 0x60C5, 32, 0x72AF, 0x7F6A]) =
     [ascii ''1994'', [0x7F8E, 0x56FD], [0x5267, 0x60C5, 32, 0x72AF, 0x7F6A]]"
    by (simp add: trimmed_segments_def py_split_def py_replace_def markup_eval)
  moreover have "(case find_tag (ascii ''p'') metadata_item of
      None \<Rightarrow> (None, None, [])
    | Some info_block \<Rightarrow>
        if info_lines info_block = [] then (None, None, [])
        else
          (let parts = filter (\<lambda>x. x \<noteq> [])
                         (trimmed_segments (last (info_lines info_block)))
           in (if parts = [] then None else safe_int (Some (hd parts)),
               if 1 < length parts then Some (parts ! 1) else None,
               drop 2 parts))) =
     (Some 1994, Some [0x7F8E, 0x56FD], [[0x5267, 0x60C5, 32, 0x72AF, 0x7F6A]])"
    using metadata_from_last_line [of no_float metadata_item
        "bare_movie\<lparr>year := Some 1994, country := Some [0x7F8E, 0x56FD],
            genres := [[0x5267, 0x60C5, 32, 0x72AF, 0x7F6A]],
            directors := [ascii ''Frank Darabont1994'', [0x7F8E, 0x56FD],
                          [0x5267, 0x60C5, 32, 0x72AF, 0x7F6A]]\<rparr>", THEN conjunct1]
    by (simp add: metadata_item_parsed)
  moreover have "safe_int (Some (ascii ''1994'')) = Some 1994"
    using metadata_from_last_line [of _ _ _ _ "ascii ''1994''"]
    by (simp add: ascii_def is_decimal_ascii digit_value_ascii int_max_str_digits_def
          decimal_value_def horner_def)
  moreover have "\<not> literal_char 97"
    by (simp add: literal_char_def is_decimal_def decimal_latin isspace_def)
  then have "safe_int (Some (ascii ''1994a'')) = None"
    using metadata_from_last_line [of _ _ _ _ _ "ascii ''1994a''"]
    by (simp add: ascii_def)
  ultimately show ?thesis
    by (simp add: metadata_item_parsed)
qed

text \<open>The claim as stated keeps the empty segments: the line of \<open>gap_item\<close> has the
  segments year, empty, genre, so its country would be the empty segment and its genre
  the third one.  The extractor makes the genre the country and finds no genre.\<close>

theorem segment_positions_counterexample:
  "trimmed_segments gap_line = [ascii ''1994'', [], [0x5267, 0x60C5]] \<and>
   parse_movie no_float gap_item =
     Inr (bare_movie\<lparr>year := Some 1994, country := Some [0x5267, 0x60C5]\<rparr>) \<and>
   genres (bare_movie\<lparr>year := Some 1994, country := Some [0x5267, 0x60C5]\<rparr>) = []"
  by (simp add: gap_line_segments gap_item_parsed bare_movie_def)

text \<open>
  \<^bold>\<open>C9\<close>.  For an item with at most one title span, the original title comes from the
  \<^verbatim>\<open>other\<close> span: its text without the leading slashes, trimmed, and of that the part
  before the first further slash, trimmed again (all of it when there is no further
  slash).  It is absent when there is no such span or nothing is left of its text.
\<close>

theorem original_title_from_other:
  assumes "length (find_all_class (ascii ''span'') (ascii ''title'') li) \<le> 1"
    and "parse_movie float_of li = Inr m"
  shows "original_title m =
           (case find_class (ascii ''span'') (ascii ''other'') li of
              None \<Rightarrow> None
            | Some other_title_tag \<Rightarrow>
                (let other_text = py_strip (dropWhile (\<lambda>c. c = 47) (get_text other_title_tag))
                 in if other_text = [] then None
                    else Some (py_strip (takeWhile (\<lambda>c. c \<noteq> 47) other_text))))"
  using original_title_fallback [OF assms(1)] parse_movie_fields(4) [OF assms(2)]
  by simp

theorem original_title_from_other_witness:
  "parse_movie no_float alias_item =
     Inr (bare_movie\<lparr>title := [0x8096, 0x7533, 0x514B],
            original_title := Some [0x6708, 0x9ED1, 0x9AD8, 0x98DE, 40, 0x6E2F, 41]\<rparr>) \<and>
   (case find_class (ascii ''span'') (ascii ''other'') alias_item of
      None \<Rightarrow> None
    | Some other_title_tag \<Rightarrow>
        (let other_text = py_strip (dropWhile (\<lambda>c. c = 47) (get_text other_title_tag))
         in if other_text = [] then None
            else Some (py_strip (takeWhile (\<lambda>c. c \<noteq> 47) other_text)))) =
     Some [0x6708, 0x9ED1, 0x9AD8, 0x98DE, 40, 0x6E2F, 41] \<and>
   find_class (ascii ''span'') (ascii ''other'') unranked_item = None \<and>
   original_title (bare_movie\<lparr>title := [0x8096, 0x7533, 0x514B]\<rparr>) = None"
proof -
  have a: "length (find_all_class (ascii ''span'') (ascii ''title'') unranked_item) \<le> 1"
    by (simp add: unranked_item_def markup_eval)
  have b: "find_class (ascii ''span'') (ascii ''other'') unranked_item = None"
    by (simp add: unranked_item_def markup_eval)
  have "original_title (bare_movie\<lparr>title := [0x8096, 0x7533, 0x514B]\<rparr>) = None"
    using original_title_from_other [OF a unranked_item_parsed] by (simp add: b)
  moreover have c: "length (find_all_class (ascii ''span'') (ascii ''title'') alias_item) \<le> 1"
    by (simp add: alias_item_def markup_eval)
  have "(case find_class (ascii ''span'') (ascii ''other'') alias_item of
           None \<Rightarrow> None
         | Some other_title_tag \<Rightarrow>
             (let other_text = py_strip (dropWhile (\<lambda>c. c = 47) (get_text other_title_tag))
              in if other_text = [] then None
                 else Some (py_strip (takeWhile (\<lambda>c. c \<noteq> 47) other_text)))) =
        Some [0x6708, 0x9ED1, 0x9AD8, 0x98DE, 40, 0x6E2F, 41]"
    using original_title_from_other [OF c alias_item_parsed] by simp
  ultimately show ?thesis
    using b by (simp add: alias_item_parsed)
qed

end
